theory Spec2Isabelle
  imports Complex_Main "HOL-Library.Sublist"
begin

section \<open>JavaScript numbers\<close>

text \<open>
  A JavaScript number is an IEEE 754 binary64 value: a finite value, the negative zero,
  an infinity or \<open>NaN\<close>. A finite value is a rational \<open>m * 2^q\<close> with \<open>\<bar>m\<bar> < 2^53\<close> and
  \<open>-1074 \<le> q \<le> 971\<close>; \<open>Finite 0\<close> is the positive zero. Every arithmetic operation
  returns the exact result rounded to the nearest such value, a tie going to the even
  significand, and an infinity from \<open>2^1024\<close> on.
\<close>

datatype number = Finite rat | NegZero | PosInfinity | NegInfinity | NaN

definition pow2 :: "int \<Rightarrow> rat" where
  "pow2 e = (if 0 \<le> e then 2 ^ nat e else 1 / 2 ^ nat (- e))"

text \<open>The number of binary digits of a positive integer.\<close>

function bitLength :: "int \<Rightarrow> int" where
  "bitLength n = (if n \<le> 0 then 0 else 1 + bitLength (n div 2))"
  by pat_completeness auto
termination
  by (relation "measure nat") auto

declare bitLength.simps [simp del]

text \<open>
  The binary exponent of a positive rational \<open>a\<close>: the \<open>e\<close> with \<open>2^e \<le> a < 2^(e+1)\<close>. For
  \<open>a = p / q\<close> it is the difference of the bit lengths of \<open>p\<close> and \<open>q\<close>, or one less.
\<close>

definition exponentOf :: "rat \<Rightarrow> int" where
  "exponentOf a =
     (case quotient_of a of
        (p, q) \<Rightarrow>
          (let e0 = bitLength p - bitLength q
           in if pow2 e0 \<le> a then e0 else e0 - 1))"

text \<open>The integer nearest to a rational that is not negative, a tie going to the even one.\<close>

definition roundHalfEven :: "rat \<Rightarrow> int" where
  "roundHalfEven r =
     (let f = \<lfloor>r\<rfloor>; d = r - of_int f
      in if d < 1 / 2 then f else if 1 / 2 < d then f + 1 else if even f then f else f + 1)"

text \<open>
  The number for an exact result \<open>x\<close>: \<open>x\<close> rounded to a multiple of \<open>2^q\<close>, where \<open>q\<close> leaves
  53 binary digits to the significand and is at least \<open>-1074\<close> (the subnormal range). A
  negative result that rounds to zero is the negative zero, and a rounded value of
  binary exponent 1024 or more, that is of magnitude \<open>2^1024\<close> or more, is an infinity.
\<close>

definition roundToNumber :: "rat \<Rightarrow> number" where
  "roundToNumber x =
     (if x = 0 then Finite 0
      else
        (let a = \<bar>x\<bar>;
             q = max (exponentOf a - 52) (- 1074);
             m = roundHalfEven (a / pow2 q);
             v = of_int m * pow2 q
         in if m = 0 then (if 0 < x then Finite 0 else NegZero)
            else if 1024 \<le> exponentOf v then (if 0 < x then PosInfinity else NegInfinity)
            else Finite (if 0 < x then v else - v)))"

fun isNegative :: "number \<Rightarrow> bool" where
  "isNegative (Finite r) = (r < 0)"
| "isNegative NegZero = True"
| "isNegative NegInfinity = True"
| "isNegative PosInfinity = False"
| "isNegative NaN = False"

fun isZero :: "number \<Rightarrow> bool" where
  "isZero (Finite r) = (r = 0)"
| "isZero NegZero = True"
| "isZero x = False"

fun isInfinite :: "number \<Rightarrow> bool" where
  "isInfinite PosInfinity = True"
| "isInfinite NegInfinity = True"
| "isInfinite x = False"

fun valueOf :: "number \<Rightarrow> rat" where
  "valueOf (Finite r) = r"
| "valueOf x = 0"

definition signedZero :: "bool \<Rightarrow> number" where
  "signedZero negative = (if negative then NegZero else Finite 0)"

definition signedInfinity :: "bool \<Rightarrow> number" where
  "signedInfinity negative = (if negative then NegInfinity else PosInfinity)"

text \<open>\<open>-x\<close>\<close>

fun Number_unaryMinus :: "number \<Rightarrow> number" where
  "Number_unaryMinus (Finite r) = (if r = 0 then NegZero else Finite (- r))"
| "Number_unaryMinus NegZero = Finite 0"
| "Number_unaryMinus PosInfinity = NegInfinity"
| "Number_unaryMinus NegInfinity = PosInfinity"
| "Number_unaryMinus NaN = NaN"

text \<open>
  \<open>x + y\<close>. Opposite infinities add up to \<open>NaN\<close>; a zero sum is the positive zero unless
  both summands are the negative zero.
\<close>

definition Number_add :: "number \<Rightarrow> number \<Rightarrow> number" where
  "Number_add x y =
     (if x = NaN \<or> y = NaN then NaN
      else if isInfinite x \<and> isInfinite y then (if x = y then x else NaN)
      else if isInfinite x then x
      else if isInfinite y then y
      else if x = NegZero \<and> y = NegZero then NegZero
      else roundToNumber (valueOf x + valueOf y))"

text \<open>\<open>x - y\<close>\<close>

definition Number_subtract :: "number \<Rightarrow> number \<Rightarrow> number" where
  "Number_subtract x y = Number_add x (Number_unaryMinus y)"

text \<open>\<open>x * y\<close>. The sign of a zero or an infinite product is the product of the signs.\<close>

definition Number_multiply :: "number \<Rightarrow> number \<Rightarrow> number" where
  "Number_multiply x y =
     (if x = NaN \<or> y = NaN then NaN
      else if (isInfinite x \<and> isZero y) \<or> (isZero x \<and> isInfinite y) then NaN
      else if isInfinite x \<or> isInfinite y then signedInfinity (isNegative x \<noteq> isNegative y)
      else if isZero x \<or> isZero y then signedZero (isNegative x \<noteq> isNegative y)
      else roundToNumber (valueOf x * valueOf y))"

text \<open>\<open>x / y\<close>. A division of zero by zero or of an infinity by an infinity is \<open>NaN\<close>.\<close>

definition Number_divide :: "number \<Rightarrow> number \<Rightarrow> number" where
  "Number_divide x y =
     (if x = NaN \<or> y = NaN then NaN
      else if (isInfinite x \<and> isInfinite y) \<or> (isZero x \<and> isZero y) then NaN
      else if isInfinite x \<or> isZero y then signedInfinity (isNegative x \<noteq> isNegative y)
      else if isZero x \<or> isInfinite y then signedZero (isNegative x \<noteq> isNegative y)
      else roundToNumber (valueOf x / valueOf y))"

text \<open>\<open>x > 0\<close>\<close>

fun isPositive :: "number \<Rightarrow> bool" where
  "isPositive (Finite r) = (0 < r)"
| "isPositive PosInfinity = True"
| "isPositive x = False"

text \<open>The integer square root: the largest \<open>r\<close> with \<open>r * r \<le> n\<close>.\<close>

function floorSqrt :: "int \<Rightarrow> int" where
  "floorSqrt n =
     (if n < 2 then max n 0
      else (let r = 2 * floorSqrt (n div 4) in if (r + 1) * (r + 1) \<le> n then r + 1 else r))"
  by pat_completeness auto
termination
  by (relation "measure nat") auto

declare floorSqrt.simps [simp del]

text \<open>
  The square root of a positive rational, rounded to 53 binary digits. With \<open>e\<close> the
  binary exponent of the root and \<open>q = e - 52\<close>, the significand is the integer nearest
  to the root of \<open>N = a / 2^(2q)\<close>, found by comparing \<open>N\<close> with the square of the midpoint
  above its integer square root. The root of a finite number neither overflows nor is
  subnormal.
\<close>

definition roundSqrt :: "rat \<Rightarrow> rat" where
  "roundSqrt a =
     (let q = exponentOf a div 2 - 52;
          N = a / pow2 (2 * q);
          s = floorSqrt \<lfloor>N\<rfloor>;
          h = (of_int s + 1 / 2) * (of_int s + 1 / 2);
          m = (if N < h then s else if h < N then s + 1 else if even s then s else s + 1)
      in of_int m * pow2 q)"

text \<open>\<open>Math.sqrt(x)\<close>\<close>

fun Math_sqrt :: "number \<Rightarrow> number" where
  "Math_sqrt (Finite a) =
     (if a < 0 then NaN else if a = 0 then Finite 0 else Finite (roundSqrt a))"
| "Math_sqrt NegZero = NegZero"
| "Math_sqrt PosInfinity = PosInfinity"
| "Math_sqrt NegInfinity = NaN"
| "Math_sqrt NaN = NaN"

text \<open>
  \<open>Math.pow(x, 2)\<close>, the one use of \<open>Math.pow\<close> in the code. The language leaves the
  precision of \<open>Math.pow\<close> to the engine; the model returns the square rounded once,
  which is what an engine returns when the square is itself a number.
\<close>

fun Math_pow_2 :: "number \<Rightarrow> number" where
  "Math_pow_2 (Finite a) = roundToNumber (a * a)"
| "Math_pow_2 NegZero = Finite 0"
| "Math_pow_2 PosInfinity = PosInfinity"
| "Math_pow_2 NegInfinity = PosInfinity"
| "Math_pow_2 NaN = NaN"

text \<open>A length or a count as a number: array lengths are below \<open>2^32\<close>, hence exact.\<close>

definition Number_of_nat :: "nat \<Rightarrow> number" where
  "Number_of_nat n = Finite (of_nat n)"

section \<open>JavaScript values, exceptions and effects\<close>

text \<open>
  Values of TypeScript type \<open>unknown\<close> (tool arguments, tool data, task metadata):
  the values of JSON and \<open>undefined\<close>, and \<open>BigInt\<close> values, which JSON cannot write.
  Objects are association lists in property order.
\<close>

datatype jsvalue =
    JUndefined
  | JNull
  | JBool bool
  | JNum number
  | JBigInt int
  | JStr string
  | JArr "jsvalue list"
  | JObj "(string \<times> jsvalue) list"

text \<open>
  A thrown value: an instance of \<open>Error\<close> with its message, or anything else.
  \<open>TypeError\<close> and \<open>SyntaxError\<close> are instances of \<open>Error\<close>.
\<close>

datatype exn = JsError string | JsThrown jsvalue

text \<open>\<open>error instanceof Error ? error.message : fallback\<close>\<close>

fun error_message :: "string \<Rightarrow> exn \<Rightarrow> string" where
  "error_message fallback (JsError m) = m"
| "error_message fallback (JsThrown v) = fallback"

text \<open>JavaScript truthiness, as tested by \<open>if (x)\<close> and \<open>x || y\<close>.\<close>

fun truthy :: "jsvalue \<Rightarrow> bool" where
  "truthy JUndefined = False"
| "truthy JNull = False"
| "truthy (JBool b) = b"
| "truthy (JNum x) = (\<not> isZero x \<and> x \<noteq> NaN)"
| "truthy (JBigInt n) = (n \<noteq> 0)"
| "truthy (JStr s) = (s \<noteq> [])"
| "truthy (JArr xs) = True"
| "truthy (JObj kvs) = True"

text \<open>\<open>s || d\<close> for an optional string: the empty string is falsy too.\<close>

fun or_string :: "string option \<Rightarrow> string \<Rightarrow> string" where
  "or_string None d = d"
| "or_string (Some s) d = (if s = [] then d else s)"

text \<open>
  An effectful computation over a state: it returns normally (\<open>Inr\<close>) or throws
  (\<open>Inl\<close>), and yields the state it leaves behind either way. An \<open>await\<close> of a
  rejected promise is a throw.
\<close>

type_synonym ('a, 's) eff = "'s \<Rightarrow> (exn + 'a) \<times> 's"

definition returnE :: "'a \<Rightarrow> ('a, 's) eff" where
  "returnE x = (\<lambda>s. (Inr x, s))"

definition throwE :: "exn \<Rightarrow> ('a, 's) eff" where
  "throwE e = (\<lambda>s. (Inl e, s))"

definition bindE :: "('a, 's) eff \<Rightarrow> ('a \<Rightarrow> ('b, 's) eff) \<Rightarrow> ('b, 's) eff" where
  "bindE m f = (\<lambda>s. case m s of (Inl e, s') \<Rightarrow> (Inl e, s') | (Inr x, s') \<Rightarrow> f x s')"

text \<open>\<open>try { m } catch (error) { h error }\<close>\<close>

definition tryCatch :: "('a, 's) eff \<Rightarrow> (exn \<Rightarrow> ('a, 's) eff) \<Rightarrow> ('a, 's) eff" where
  "tryCatch m h = (\<lambda>s. case m s of (Inl e, s') \<Rightarrow> h e s' | (Inr x, s') \<Rightarrow> (Inr x, s'))"

text \<open>Assignments to, and reads of, the state.\<close>

definition modify :: "('s \<Rightarrow> 's) \<Rightarrow> (unit, 's) eff" where
  "modify f = (\<lambda>s. (Inr (), f s))"

definition gets :: "('s \<Rightarrow> 'a) \<Rightarrow> ('a, 's) eff" where
  "gets f = (\<lambda>s. (Inr (f s), s))"

text \<open>A pure computation that may throw, run inside an effectful one.\<close>

definition liftE :: "exn + 'a \<Rightarrow> ('a, 's) eff" where
  "liftE r = (\<lambda>s. (r, s))"

section \<open>Insertion-ordered maps\<close>

text \<open>
  A JavaScript \<open>Map\<close> iterates in insertion order; setting an existing key keeps its
  position. The model is an association list with one entry per key.
\<close>

fun Map_get :: "('k \<times> 'v) list \<Rightarrow> 'k \<Rightarrow> 'v option" where
  "Map_get [] k = None"
| "Map_get ((k', v) # m) k = (if k' = k then Some v else Map_get m k)"

fun Map_set :: "('k \<times> 'v) list \<Rightarrow> 'k \<Rightarrow> 'v \<Rightarrow> ('k \<times> 'v) list" where
  "Map_set [] k v = [(k, v)]"
| "Map_set ((k', v') # m) k v = (if k' = k then (k, v) # m else (k', v') # Map_set m k v)"

fun Map_delete :: "('k \<times> 'v) list \<Rightarrow> 'k \<Rightarrow> ('k \<times> 'v) list" where
  "Map_delete [] k = []"
| "Map_delete ((k', v') # m) k = (if k' = k then Map_delete m k else (k', v') # Map_delete m k)"

section \<open>Data model (core/types.ts)\<close>

datatype ParameterType = PString | PNumber | PBoolean | PObject | PArray

record ToolParameter =
  param_type :: ParameterType
  param_description :: string
  param_required :: "bool option"
  param_enum :: "string list option"
  param_default :: jsvalue

record ToolDefinition =
  def_name :: string
  def_description :: string
  def_parameters :: "(string \<times> ToolParameter) list"

record ToolResult =
  tool_success :: bool
  tool_data :: jsvalue
  tool_error :: "string option"
  tool_metadata :: "(string \<times> jsvalue) list option"

text \<open>
  A tool body runs against the world outside the agent that owns the registry (network,
  other objects) and returns a result or throws.
\<close>

record 'w Tool =
  tool_definition :: ToolDefinition
  tool_execute :: "jsvalue \<Rightarrow> (ToolResult, 'w) eff"

datatype AgentRole = Master_orchestrator | Sub_orchestrator | Specialist

datatype AgentDomain = Analytics | Research | Content | Code | General

record AgentConfig =
  cfg_id :: string
  cfg_name :: string
  cfg_description :: string
  cfg_role :: AgentRole
  cfg_domain :: AgentDomain
  cfg_model :: "string option"
  cfg_temperature :: "number option"
  cfg_maxTokens :: "number option"
  systemPrompt :: "string option"

datatype AgentStatus = Idle | Thinking | Executing | Waiting | Error

datatype Role = System | User | Assistant | ToolRole

record ToolCall =
  tc_id :: string
  toolName :: string
  tc_arguments :: jsvalue

record AgentMessage =
  msg_id :: string
  msg_role :: Role
  msg_content :: string
  msg_timestamp :: int
  msg_toolCalls :: "ToolCall list option"
  msg_toolResult :: "ToolResult option"

datatype TaskPriority = Low | Medium | High | Critical

datatype TaskStatus = Pending | In_progress | Completed | Failed | Delegated

record Artifact =
  art_id :: string
  art_type :: string
  art_name :: string
  art_content :: jsvalue
  art_mimeType :: "string option"

record TaskResult =
  res_success :: bool
  res_output :: jsvalue
  res_error :: "string option"
  res_artifacts :: "Artifact list option"
  res_executionTime :: "int option"

datatype Task = Task
  (task_id: string)
  (task_description: string)
  (task_priority: TaskPriority)
  (task_status: TaskStatus)
  (assignedTo: "string option")
  (delegatedTo: "string option")
  (parentTaskId: "string option")
  (subTasks: "Task list")
  (task_result: "TaskResult option")
  (createdAt: int)
  (updatedAt: int)
  (task_metadata: "(string \<times> jsvalue) list option")


record LLMToolCall =
  call_id :: string
  fn_name :: string
  fn_arguments :: string

record LLMMessage =
  llm_role :: Role
  llm_content :: string
  llm_toolCalls :: "LLMToolCall list option"
  llm_toolCallId :: "string option"

datatype FinishReason = Stop | Tool_calls | Length | Content_filter

record Usage =
  promptTokens :: int
  completionTokens :: int
  totalTokens :: int

record LLMResponse =
  resp_content :: string
  resp_toolCalls :: "LLMToolCall list option"
  finishReason :: FinishReason
  resp_usage :: "Usage option"

section \<open>Provider interface (providers/types.ts) and the environment\<close>

datatype ProviderType = Openai | Ollama | Openrouter | N8n | Agentrouter | Custom

record FunctionSchema =
  fs_name :: string
  fs_description :: string
  fs_properties :: "(string \<times> ToolParameter) list"
  fs_required :: "string list"

record ChatCompletionRequest =
  req_model :: string
  req_messages :: "LLMMessage list"
  req_temperature :: number
  req_maxTokens :: number
  req_tools :: "FunctionSchema list option"

record Choice =
  choice_content :: "string option"
  choice_toolCalls :: "LLMToolCall list option"
  choice_finishReason :: "FinishReason option"

record ChatCompletionResponse =
  choices :: "Choice list"
  cc_usage :: "Usage option"

record ZaiChoice =
  zai_content :: "string option"
  zai_tool_calls :: "LLMToolCall list option"
  zai_finish_reason :: FinishReason

record ZaiResponse =
  zai_choices :: "ZaiChoice list"
  zai_usage :: "Usage option"

text \<open>
  What the code calls but does not define: the clock, the uuid generator, the JSON
  built-ins, the provider registry's active adapter and the default SDK client. Each is
  a parameter; the effectful ones act on the world \<open>'w\<close>.

  \<open>JSON_stringify_result\<close> is \<open>JSON.stringify\<close> on a tool result. The \<open>data\<close> of a tool
  result has type \<open>unknown\<close>: it may hold what \<open>JSON.stringify\<close> refuses with a
  \<open>TypeError\<close> (a \<open>BigInt\<close>, an object that contains itself), so the call returns the
  text or throws.
\<close>

record 'w env =
  uuidv4 :: "'w \<Rightarrow> string \<times> 'w"
  Date_now :: "'w \<Rightarrow> int \<times> 'w"
  JSON_parse :: "string \<Rightarrow> exn + jsvalue"
  JSON_stringify :: "jsvalue \<Rightarrow> string"
  JSON_stringify_indent :: "jsvalue \<Rightarrow> string"
  JSON_stringify_result :: "ToolResult \<Rightarrow> exn + string"
  String_of :: "jsvalue \<Rightarrow> string"
  createChatCompletion :: "ChatCompletionRequest \<Rightarrow> (ChatCompletionResponse, 'w) eff"
  ZAI_create :: "(unit, 'w) eff"
  zai_completions_create :: "ChatCompletionRequest \<Rightarrow> (ZaiResponse, 'w) eff"

section \<open>Agent (core/Agent.ts)\<close>

text \<open>
  The fields of an \<open>Agent\<close> object. \<open>zai\<close> records whether the SDK client has been
  created; \<open>llmCalls\<close> is a ghost counter of \<open>callLLM\<close> invocations; \<open>world\<close> is
  everything outside the object.
\<close>

record 'w Agent =
  config :: AgentConfig
  status :: AgentStatus
  currentTask :: "string option"
  lastActivity :: "int option"
  state_messages :: "AgentMessage list"
  state_context :: "(string \<times> jsvalue) list"
  tools :: "(string \<times> 'w Tool) list"
  zai :: bool
  messageHistory :: "AgentMessage list"
  providerType :: ProviderType
  providerConfig_model :: "string option"
  llmCalls :: nat
  world :: 'w

text \<open>Running a computation of the world from inside a method of the agent.\<close>

definition inWorld :: "('a, 'w) eff \<Rightarrow> ('a, ('w, 'z) Agent_scheme) eff" where
  "inWorld m = (\<lambda>s. case m (world s) of (r, w') \<Rightarrow> (r, s\<lparr>world := w'\<rparr>))"

definition readWorld :: "('w \<Rightarrow> 'a \<times> 'w) \<Rightarrow> ('a, ('w, 'z) Agent_scheme) eff" where
  "readWorld f = (\<lambda>s. case f (world s) of (x, w') \<Rightarrow> (Inr x, s\<lparr>world := w'\<rparr>))"

definition registerTool :: "'w Tool \<Rightarrow> ('w, 'z) Agent_scheme \<Rightarrow> ('w, 'z) Agent_scheme" where
  "registerTool tool s = s\<lparr>tools := Map_set (tools s) (def_name (tool_definition tool)) tool\<rparr>"

definition registerTools :: "'w Tool list \<Rightarrow> ('w, 'z) Agent_scheme \<Rightarrow> ('w, 'z) Agent_scheme" where
  "registerTools ts s = foldl (\<lambda>s' tool. registerTool tool s') s ts"

definition getToolDefinitions :: "('w, 'z) Agent_scheme \<Rightarrow> ToolDefinition list" where
  "getToolDefinitions s = map (\<lambda>(k, t). tool_definition t) (tools s)"

text \<open>\<open>addMessage\<close>: the only writer of \<open>messageHistory\<close> besides \<open>clearHistory\<close>.\<close>

definition addMessage ::
  "'w env \<Rightarrow> Role \<Rightarrow> string \<Rightarrow> ToolCall list option \<Rightarrow> ToolResult option \<Rightarrow>
   (unit, ('w, 'z) Agent_scheme) eff" where
  "addMessage env role content toolCalls toolResult =
     bindE (readWorld (uuidv4 env)) (\<lambda>mid.
     bindE (readWorld (Date_now env)) (\<lambda>ts.
       (\<lambda>s. (Inr (),
          s\<lparr>messageHistory := messageHistory s @
              [\<lparr>msg_id = mid, msg_role = role, msg_content = content, msg_timestamp = ts,
                msg_toolCalls = toolCalls, msg_toolResult = toolResult\<rparr>]\<rparr>))))"

definition clearHistory :: "('w, 'z) Agent_scheme \<Rightarrow> ('w, 'z) Agent_scheme" where
  "clearHistory s = s\<lparr>messageHistory := []\<rparr>"

subsection \<open>callLLM\<close>

record LLMOptions =
  opt_temperature :: "number option"
  opt_maxTokens :: "number option"
  opt_model :: "string option"

text \<open>
  The \<open>tools\<close> entry of a request: one function schema per registered tool, its
  required parameters being those whose \<open>required\<close> flag is true.
\<close>

definition toolSchemas :: "ToolDefinition list \<Rightarrow> FunctionSchema list" where
  "toolSchemas tds =
     map (\<lambda>t. \<lparr>fs_name = def_name t, fs_description = def_description t,
                fs_properties = def_parameters t,
                fs_required = map fst (filter (\<lambda>(name, p). param_required p = Some True)
                                        (def_parameters t))\<rparr>) tds"

text \<open>
  A message as sent to a backend: a tool-role message goes out as a user message, and
  the optional fields are copied when truthy (an empty call id is dropped).
\<close>

definition requestMessage :: "LLMMessage \<Rightarrow> LLMMessage" where
  "requestMessage m =
     \<lparr>llm_role = (if llm_role m = ToolRole then User else llm_role m),
      llm_content = llm_content m,
      llm_toolCalls = llm_toolCalls m,
      llm_toolCallId = (case llm_toolCallId m of
                          None \<Rightarrow> None
                        | Some i \<Rightarrow> if i = [] then None else Some i)\<rparr>"

text \<open>
  The request both backends receive (the SDK client takes the same fields under
  snake-case names). Without registered tools the request carries no \<open>tools\<close> entry.
\<close>

definition chatRequest ::
  "LLMMessage list \<Rightarrow> LLMOptions option \<Rightarrow> ('w, 'z) Agent_scheme \<Rightarrow> ChatCompletionRequest" where
  "chatRequest messages options s =
     (let tds = getToolDefinitions s;
          hasTools = (length tds > 0);
          model = or_string (case options of None \<Rightarrow> None | Some opts \<Rightarrow> opt_model opts)
                    (or_string (providerConfig_model s)
                      (or_string (cfg_model (config s)) ''gpt-4o''))
      in \<lparr>req_model = model,
          req_messages = map requestMessage messages,
          req_temperature =
            (case (case options of None \<Rightarrow> None | Some opts \<Rightarrow> opt_temperature opts) of
               Some t \<Rightarrow> t
             | None \<Rightarrow> (case cfg_temperature (config s) of Some t \<Rightarrow> t
                        | None \<Rightarrow> roundToNumber (7 / 10))),
          req_maxTokens =
            (case (case options of None \<Rightarrow> None | Some opts \<Rightarrow> opt_maxTokens opts) of
               Some t \<Rightarrow> t
             | None \<Rightarrow> (case cfg_maxTokens (config s) of Some t \<Rightarrow> t | None \<Rightarrow> Finite 4096)),
          req_tools = (if hasTools then Some (toolSchemas tds) else None)\<rparr>)"

text \<open>
  Reading \<open>response.choices[0].message\<close> of a response without choices throws a
  \<open>TypeError\<close>; the engine's message text is not modelled.
\<close>

definition TypeError :: exn where
  "TypeError = JsError ''TypeError''"

definition fromProvider :: "ChatCompletionResponse \<Rightarrow> exn + LLMResponse" where
  "fromProvider response =
     (case choices response of
        [] \<Rightarrow> Inl TypeError
      | choice # rest \<Rightarrow>
          Inr \<lparr>resp_content = or_string (choice_content choice) [],
               resp_toolCalls = choice_toolCalls choice,
               finishReason = (case choice_finishReason choice of None \<Rightarrow> Stop | Some r \<Rightarrow> r),
               resp_usage = cc_usage response\<rparr>)"

definition fromZai :: "ZaiResponse \<Rightarrow> exn + LLMResponse" where
  "fromZai response =
     (case zai_choices response of
        [] \<Rightarrow> Inl TypeError
      | choice # rest \<Rightarrow>
          Inr \<lparr>resp_content = or_string (zai_content choice) [],
               resp_toolCalls = zai_tool_calls choice,
               finishReason = zai_finish_reason choice,
               resp_usage = zai_usage response\<rparr>)"

text \<open>
  The default backend: the SDK client is created on first use. An error of the client
  or of the request propagates.
\<close>

definition callOpenAI ::
  "'w env \<Rightarrow> ChatCompletionRequest \<Rightarrow> (LLMResponse, ('w, 'z) Agent_scheme) eff" where
  "callOpenAI env request =
     bindE (\<lambda>s. if \<not> zai s
                 then bindE (inWorld (ZAI_create env)) (\<lambda>u. modify (\<lambda>s'. s'\<lparr>zai := True\<rparr>)) s
                 else (Inr (), s)) (\<lambda>u.
     bindE (inWorld (zai_completions_create env request)) (\<lambda>response.
       liftE (fromZai response)))"

text \<open>
  \<open>callLLM\<close>: a non-default provider is tried first; any error there (it is logged) falls
  through to the default backend.
\<close>

definition callLLM ::
  "'w env \<Rightarrow> LLMMessage list \<Rightarrow> LLMOptions option \<Rightarrow> (LLMResponse, ('w, 'z) Agent_scheme) eff" where
  "callLLM env messages options =
     bindE (modify (\<lambda>s. s\<lparr>llmCalls := Suc (llmCalls s)\<rparr>)) (\<lambda>u.
     bindE (gets (chatRequest messages options)) (\<lambda>request.
     bindE (gets providerType) (\<lambda>ptype.
     bindE (if ptype \<noteq> Openai
            then tryCatch
                   (bindE (inWorld (createChatCompletion env request)) (\<lambda>response.
                    bindE (liftE (fromProvider response)) (\<lambda>r. returnE (Some r))))
                   (\<lambda>error. returnE None)
            else returnE None) (\<lambda>fromActive.
       case fromActive of
         Some r \<Rightarrow> returnE r
       | None \<Rightarrow> callOpenAI env request))))"

subsection \<open>Tool execution\<close>

definition executeToolCall :: "ToolCall \<Rightarrow> (ToolResult, ('w, 'z) Agent_scheme) eff" where
  "executeToolCall toolCall =
     (\<lambda>s. case Map_get (tools s) (toolName toolCall) of
             None \<Rightarrow>
               (Inr \<lparr>tool_success = False, tool_data = JUndefined,
                     tool_error = Some (''Unknown tool: '' @ toolName toolCall),
                     tool_metadata = None\<rparr>, s)
           | Some tool \<Rightarrow>
               tryCatch (inWorld (tool_execute tool (tc_arguments toolCall)))
                 (\<lambda>error. returnE \<lparr>tool_success = False, tool_data = JUndefined,
                                    tool_error = Some (error_message ''Unknown error'' error),
                                    tool_metadata = None\<rparr>) s)"

text \<open>\<open>toolCalls.map\<close> with \<open>JSON.parse\<close> on each argument string: the first failure throws.\<close>

fun parseToolCalls :: "'w env \<Rightarrow> LLMToolCall list \<Rightarrow> exn + ToolCall list" where
  "parseToolCalls env [] = Inr []"
| "parseToolCalls env (tc # tcs) =
     (case JSON_parse env (fn_arguments tc) of
        Inl e \<Rightarrow> Inl e
      | Inr args \<Rightarrow>
          (case parseToolCalls env tcs of
             Inl e \<Rightarrow> Inl e
           | Inr rest \<Rightarrow>
               Inr (\<lparr>tc_id = call_id tc, toolName = fn_name tc, tc_arguments = args\<rparr> # rest)))"

subsection \<open>The agent loop\<close>

text \<open>
  The body of \<open>for (const tc of response.toolCalls)\<close>, threading the three lists it
  appends to: \<open>allMessages\<close>, \<open>toolResults\<close> and \<open>messages\<close>. The assistant message is
  pushed onto \<open>messages\<close> once per tool call, as in the source. Nothing in the body is
  inside a \<open>try\<close>: an error of \<open>JSON.parse\<close> on the argument string, or of either
  \<open>JSON.stringify(result)\<close>, leaves the loop. The tool message is built in the order
  of its fields: the uuid, the text of the result, the clock.
\<close>

fun executeTools ::
  "'w env \<Rightarrow> LLMResponse \<Rightarrow> LLMToolCall list \<Rightarrow>
   AgentMessage list \<times> LLMMessage list \<times> LLMMessage list \<Rightarrow>
   (AgentMessage list \<times> LLMMessage list \<times> LLMMessage list, ('w, 'z) Agent_scheme) eff" where
  "executeTools env response [] acc = returnE acc"
| "executeTools env response (tc # tcs) acc =
     bindE (liftE (JSON_parse env (fn_arguments tc))) (\<lambda>args.
     bindE (executeToolCall \<lparr>tc_id = call_id tc, toolName = fn_name tc, tc_arguments = args\<rparr>)
       (\<lambda>result.
     bindE (readWorld (uuidv4 env)) (\<lambda>mid.
     bindE (liftE (JSON_stringify_result env result)) (\<lambda>content.
     bindE (readWorld (Date_now env)) (\<lambda>ts.
     bindE (liftE (JSON_stringify_result env result)) (\<lambda>resultContent.
       executeTools env response tcs
         (fst acc @
            [\<lparr>msg_id = mid, msg_role = ToolRole, msg_content = content, msg_timestamp = ts,
              msg_toolCalls = None, msg_toolResult = Some result\<rparr>],
          fst (snd acc) @
            [\<lparr>llm_role = ToolRole, llm_content = resultContent,
              llm_toolCalls = None, llm_toolCallId = Some (call_id tc)\<rparr>],
          snd (snd acc) @
            [\<lparr>llm_role = Assistant, llm_content = resp_content response,
              llm_toolCalls = resp_toolCalls response, llm_toolCallId = None\<rparr>])))))))"

text \<open>\<open>!response.toolCalls?.length\<close>\<close>

definition noToolCalls :: "LLMResponse \<Rightarrow> bool" where
  "noToolCalls response =
     (case resp_toolCalls response of None \<Rightarrow> True | Some tcs \<Rightarrow> tcs = [])"

text \<open>The list the \<open>for\<close> loop runs over; it is present and non-empty when the loop is reached.\<close>

definition requestedCalls :: "LLMResponse \<Rightarrow> LLMToolCall list" where
  "requestedCalls response =
     (case resp_toolCalls response of None \<Rightarrow> [] | Some tcs \<Rightarrow> tcs)"

text \<open>
  The \<open>while (iterations < maxIterations)\<close> loop, from the state in which \<open>iterations\<close>
  turns have been taken. \<open>maxIterations\<close> is any integer.
\<close>

function agentLoop ::
  "'w env \<Rightarrow> int \<Rightarrow> nat \<Rightarrow> LLMMessage list \<Rightarrow> AgentMessage list \<Rightarrow>
   (AgentMessage list \<times> string, ('w, 'z) Agent_scheme) eff" where
  "agentLoop env maxIterations iterations messages allMessages =
     (if int iterations < maxIterations then
        bindE (modify (\<lambda>s. s\<lparr>status := Thinking\<rparr>)) (\<lambda>u.
        bindE (callLLM env messages None) (\<lambda>response.
        bindE (readWorld (uuidv4 env)) (\<lambda>mid.
        bindE (readWorld (Date_now env)) (\<lambda>ts.
        bindE (case resp_toolCalls response of
                 None \<Rightarrow> returnE None
               | Some tcs \<Rightarrow> bindE (liftE (parseToolCalls env tcs)) (\<lambda>p. returnE (Some p)))
          (\<lambda>parsed.
        let assistantMessage =
              \<lparr>msg_id = mid, msg_role = Assistant, msg_content = resp_content response,
               msg_timestamp = ts, msg_toolCalls = parsed, msg_toolResult = None\<rparr>
        in if finishReason response = Stop \<or> noToolCalls response then
             bindE (modify (\<lambda>s. s\<lparr>status := Idle\<rparr>)) (\<lambda>u.
               returnE (allMessages @ [assistantMessage], resp_content response))
           else
             bindE (modify (\<lambda>s. s\<lparr>status := Executing\<rparr>)) (\<lambda>u.
             bindE (executeTools env response (requestedCalls response)
                      (allMessages @ [assistantMessage], [], messages)) (\<lambda>acc.
               agentLoop env maxIterations (Suc iterations)
                 (snd (snd acc) @ fst (snd acc)) (fst acc))))))))
      else
        bindE (modify (\<lambda>s. s\<lparr>status := Idle\<rparr>)) (\<lambda>u.
          returnE (allMessages, ''Maximum iterations reached'')))"
  by pat_completeness auto
termination
  by (relation "measure (\<lambda>(env, maxIterations, iterations, messages, allMessages).
                           nat (maxIterations - int iterations))") auto

declare agentLoop.simps [simp del]

text \<open>
  \<open>runAgentLoop\<close>: the loop from zero turns taken, over a copy of the initial messages and
  an empty transcript.
\<close>

definition runAgentLoop ::
  "'w env \<Rightarrow> LLMMessage list \<Rightarrow> int \<Rightarrow>
   (AgentMessage list \<times> string, ('w, 'z) Agent_scheme) eff" where
  "runAgentLoop env initialMessages maxIterations =
     agentLoop env maxIterations 0 initialMessages []"

text \<open>The call without a second argument: \<open>maxIterations\<close> defaults to 10.\<close>

definition runAgentLoop_default ::
  "'w env \<Rightarrow> LLMMessage list \<Rightarrow> (AgentMessage list \<times> string, ('w, 'z) Agent_scheme) eff" where
  "runAgentLoop_default env initialMessages = runAgentLoop env initialMessages 10"

section \<open>Concrete orchestrators: execute\<close>





definition userMessage :: "string \<Rightarrow> LLMMessage" where
  "userMessage text = \<lparr>llm_role = User, llm_content = text, llm_toolCalls = None,
                       llm_toolCallId = None\<rparr>"

subsection \<open>MasterOrchestrator\<close>



subsection \<open>AnalyticsOrchestrator\<close>




subsection \<open>ResearchOrchestrator\<close>




subsection \<open>ContentOrchestrator\<close>




section \<open>Orchestrator (core/Orchestrator.ts)\<close>

text \<open>
  A sub-agent is another object: what the orchestrator uses of it is its id, its name
  and its \<open>execute\<close> method, which runs in the world outside the orchestrator.
\<close>

record 'w AgentRef =
  agent_id :: string
  agent_name :: string
  agent_execute :: "Task \<Rightarrow> (TaskResult, 'w) eff"

record 'w SubAgent =
  sub_id :: string
  sub_name :: string
  sub_agent :: "'w AgentRef"
  capabilities :: "string list"

record 'w Orchestrator = "'w Agent" +
  subAgents :: "(string \<times> 'w SubAgent) list"
  pendingTasks :: "(string \<times> Task) list"
  completedTasks :: "(string \<times> TaskResult) list"

text \<open>
  Strings are strings of ASCII characters. On these \<open>toLowerCase\<close> maps the letters
  \<open>A\<close> to \<open>Z\<close> to \<open>a\<close> to \<open>z\<close>, and \<open>\s\<close> matches the tab, the line feed, the vertical tab,
  the form feed, the carriage return and the space. The letters and the white space
  beyond ASCII (an accented capital, the no-break space) are outside the model: a byte
  that is not ASCII is left as it is and is not white space.
\<close>

definition toLowerCase_char :: "char \<Rightarrow> char" where
  "toLowerCase_char c =
     (case map_of (zip ''ABCDEFGHIJKLMNOPQRSTUVWXYZ'' ''abcdefghijklmnopqrstuvwxyz'') c of
        Some l \<Rightarrow> l
      | None \<Rightarrow> c)"

definition toLowerCase :: "string \<Rightarrow> string" where
  "toLowerCase s = map toLowerCase_char s"

definition isSpace :: "char \<Rightarrow> bool" where
  "isSpace c = (c \<in> set [CHR 0x09, CHR 0x0A, CHR 0x0B, CHR 0x0C, CHR 0x0D, CHR 0x20])"

text \<open>\<open>s.replace(/\s+/g, '_')\<close>: every maximal run of white space becomes one underscore.\<close>

function replaceSpaces :: "string \<Rightarrow> string" where
  "replaceSpaces [] = []"
| "replaceSpaces (c # cs) =
     (if isSpace c then CHR ''_'' # replaceSpaces (dropWhile isSpace cs)
      else c # replaceSpaces cs)"
  by pat_completeness auto
termination
  by (relation "measure length") (auto simp: length_dropWhile_le le_imp_less_Suc)

text \<open>\<open>xs.join(sep)\<close>\<close>

fun join :: "string \<Rightarrow> string list \<Rightarrow> string" where
  "join sep [] = []"
| "join sep [x] = x"
| "join sep (x # y # ys) = x @ sep @ join sep (y # ys)"

text \<open>\<open>s.includes(t)\<close>: \<open>t\<close> occurs in \<open>s\<close> as a contiguous piece.\<close>

definition includes_str :: "string \<Rightarrow> string \<Rightarrow> bool" where
  "includes_str s t = sublist t s"

text \<open>
  \<open>registerSubAgent\<close>. The body of the delegation tool it registers is a closure over the
  orchestrator (it calls \<open>delegateTask\<close> with the sub-agent's id, \<open>params.task_description\<close>
  and \<open>params.context\<close>); tool bodies of this model act on the world outside the agent,
  so the closure is passed in as \<open>body\<close>.
\<close>

definition registerSubAgent ::
  "'w AgentRef \<Rightarrow> string list \<Rightarrow> (jsvalue \<Rightarrow> (ToolResult, 'w) eff) \<Rightarrow>
   ('w, 'z) Orchestrator_scheme \<Rightarrow> ('w, 'z) Orchestrator_scheme" where
  "registerSubAgent agent caps body s =
     registerTool
       \<lparr>tool_definition =
          \<lparr>def_name = ''delegate_to_'' @ replaceSpaces (toLowerCase (agent_name agent)),
           def_description = ''Delegate task to '' @ agent_name agent @ ''. Capabilities: '' @
                             join '', '' caps,
           def_parameters =
             [(''task_description'',
               \<lparr>param_type = PString,
                param_description = ''Description of the task to delegate'',
                param_required = Some True, param_enum = None, param_default = JUndefined\<rparr>),
              (''context'',
               \<lparr>param_type = PObject,
                param_description = ''Additional context for the task'',
                param_required = Some False, param_enum = None, param_default = JUndefined\<rparr>)]\<rparr>,
        tool_execute = body\<rparr>
       (s\<lparr>subAgents := Map_set (subAgents s) (agent_id agent)
             \<lparr>sub_id = agent_id agent, sub_name = agent_name agent, sub_agent = agent,
              capabilities = caps\<rparr>\<rparr>)"

definition getSubAgent :: "string \<Rightarrow> ('w, 'z) Orchestrator_scheme \<Rightarrow> 'w SubAgent option" where
  "getSubAgent agentId s = Map_get (subAgents s) agentId"

subsection \<open>delegateTask\<close>

text \<open>
  The task object of a delegation after the sub-agent has answered with \<open>result\<close> at
  time \<open>now\<close>: the three assignments to \<open>task.status\<close>, \<open>task.result\<close> and
  \<open>task.updatedAt\<close>.
\<close>

definition settle :: "Task \<Rightarrow> TaskStatus \<Rightarrow> TaskResult \<Rightarrow> int \<Rightarrow> Task" where
  "settle task st result now =
     Task (task_id task) (task_description task) (task_priority task) st (assignedTo task)
          (delegatedTo task) (parentTaskId task) (subTasks task) (Some result) (createdAt task)
          now (task_metadata task)"

text \<open>
  The task object sits in \<open>pendingTasks\<close> under its id by reference, so an assignment
  to one of its fields shows in the map until the entry is deleted.
\<close>

definition assignTask :: "Task \<Rightarrow> ('w, 'z) Orchestrator_scheme \<Rightarrow> ('w, 'z) Orchestrator_scheme" where
  "assignTask task s =
     s\<lparr>pendingTasks := map (\<lambda>(k, t). if k = task_id task then (k, task) else (k, t))
                            (pendingTasks s)\<rparr>"

definition moveToCompleted ::
  "string \<Rightarrow> TaskResult \<Rightarrow> ('w, 'z) Orchestrator_scheme \<Rightarrow> ('w, 'z) Orchestrator_scheme" where
  "moveToCompleted tid result s =
     s\<lparr>pendingTasks := Map_delete (pendingTasks s) tid,
       completedTasks := Map_set (completedTasks s) tid result\<rparr>"

text \<open>
  \<open>delegateTask\<close>, returning next to its result the task object as the call leaves it
  (\<open>None\<close> when no task was created). The source returns the result alone:
  \<open>delegateTask\<close> below.
\<close>

definition delegateTask_traced ::
  "'w env \<Rightarrow> string \<Rightarrow> string \<Rightarrow> jsvalue \<Rightarrow>
   (TaskResult \<times> Task option, ('w, 'z) Orchestrator_scheme) eff" where
  "delegateTask_traced env agentId taskDescription context =
     (\<lambda>s. case Map_get (subAgents s) agentId of
        None \<Rightarrow>
          (Inr (\<lparr>res_success = False, res_output = JUndefined,
                 res_error = Some (''Sub-agent not found: '' @ agentId),
                 res_artifacts = None, res_executionTime = None\<rparr>, None), s)
      | Some subAgent \<Rightarrow>
         (bindE (readWorld (uuidv4 env)) (\<lambda>tid.
          bindE (readWorld (Date_now env)) (\<lambda>created.
          bindE (readWorld (Date_now env)) (\<lambda>updated.
          let task = Task tid taskDescription Medium In_progress (Some agentId) None None []
                          None created updated (Some [(''context'', context)])
          in
          bindE (modify (\<lambda>s. s\<lparr>pendingTasks := Map_set (pendingTasks s) tid task\<rparr>)) (\<lambda>u.
          tryCatch
            (bindE (inWorld (agent_execute (sub_agent subAgent) task)) (\<lambda>result.
             bindE (readWorld (Date_now env)) (\<lambda>now.
             let task' = settle task (if res_success result then Completed else Failed)
                           result now
             in
             bindE (modify (assignTask task')) (\<lambda>u.
             bindE (modify (moveToCompleted tid result)) (\<lambda>u.
               returnE (result, Some task'))))))
            (\<lambda>error.
             let failure = \<lparr>res_success = False, res_output = JUndefined,
                            res_error = Some (error_message ''Unknown error'' error),
                            res_artifacts = None, res_executionTime = None\<rparr>
             in
             bindE (readWorld (Date_now env)) (\<lambda>now.
             let task' = settle task Failed failure now
             in
             bindE (modify (assignTask task')) (\<lambda>u.
             bindE (modify (moveToCompleted tid failure)) (\<lambda>u.
               returnE (failure, Some task')))))))))) s)"

definition delegateTask ::
  "'w env \<Rightarrow> string \<Rightarrow> string \<Rightarrow> jsvalue \<Rightarrow> (TaskResult, ('w, 'z) Orchestrator_scheme) eff" where
  "delegateTask env agentId taskDescription context =
     bindE (delegateTask_traced env agentId taskDescription context) (\<lambda>r. returnE (fst r))"

subsection \<open>selectBestAgent\<close>

text \<open>
  The two nested \<open>for\<close> statements: sub-agents in the order of the map, capabilities in the
  order of the array, returning the key of the first entry with a matching capability.
\<close>

fun matchingAgent :: "string \<Rightarrow> (string \<times> 'w SubAgent) list \<Rightarrow> string option" where
  "matchingAgent task [] = None"
| "matchingAgent task ((k, subAgent) # rest) =
     (if list_ex (\<lambda>capability. includes_str task (toLowerCase capability)) (capabilities subAgent)
      then Some k
      else matchingAgent task rest)"

text \<open>
  \<open>firstAgent?.id || null\<close>: \<open>null\<close> when there is no first entry, and also when its id
  is the empty string, which is falsy.
\<close>

definition selectBestAgent :: "string \<Rightarrow> ('w, 'z) Orchestrator_scheme \<Rightarrow> string option" where
  "selectBestAgent taskDescription s =
     (let task = toLowerCase taskDescription in
      case matchingAgent task (subAgents s) of
        Some k \<Rightarrow> Some k
      | None \<Rightarrow>
          (case subAgents s of
             [] \<Rightarrow> None
           | (k, firstAgent) # rest \<Rightarrow>
               if sub_id firstAgent = [] then None else Some (sub_id firstAgent)))"

section \<open>The statistical analysis tool (tools/analytics.ts)\<close>

definition bindS :: "exn + 'a \<Rightarrow> ('a \<Rightarrow> exn + 'b) \<Rightarrow> exn + 'b" where
  "bindS m f = (case m of Inl e \<Rightarrow> Inl e | Inr x \<Rightarrow> f x)"

text \<open>
  \<open>params.key\<close> for the keys the tool reads: reading a property of \<open>null\<close> or
  \<open>undefined\<close> throws, a missing property is \<open>undefined\<close>.
\<close>

fun getProp :: "jsvalue \<Rightarrow> string \<Rightarrow> exn + jsvalue" where
  "getProp (JObj kvs) key = Inr (case Map_get kvs key of None \<Rightarrow> JUndefined | Some v \<Rightarrow> v)"
| "getProp JUndefined key = Inl TypeError"
| "getProp JNull key = Inl TypeError"
| "getProp v key = Inr JUndefined"

text \<open>
  \<open>operations.includes(name)\<close>: membership for an array, containment for a string, and
  a \<open>TypeError\<close> for a value without an \<open>includes\<close> method.
\<close>

fun operations_includes :: "jsvalue \<Rightarrow> string \<Rightarrow> exn + bool" where
  "operations_includes (JArr xs) name = Inr (JStr name \<in> set xs)"
| "operations_includes (JStr s) name = Inr (includes_str s name)"
| "operations_includes v name = Inl TypeError"

definition defaultOperations :: jsvalue where
  "defaultOperations =
     JArr (map JStr [''mean'', ''median'', ''std'', ''min'', ''max'', ''sum'', ''count''])"

text \<open>\<open>data.filter((n) => typeof n === 'number' && !isNaN(n))\<close>\<close>

fun numericData :: "jsvalue list \<Rightarrow> number list" where
  "numericData [] = []"
| "numericData (JNum x # vs) = (if x = NaN then numericData vs else x # numericData vs)"
| "numericData (v # vs) = numericData vs"

text \<open>
  \<open>[...numericData].sort((a, b) => a - b)\<close>. The sort is stable, and the comparator
  orders two numbers by the sign of their difference; a difference that is \<open>NaN\<close> (of
  equal infinities) counts as zero. The model inserts each element before the first one
  that it is not greater than, starting from the last element.
\<close>

fun insertSorted :: "number \<Rightarrow> number list \<Rightarrow> number list" where
  "insertSorted x [] = [x]"
| "insertSorted x (y # ys) =
     (if isPositive (Number_subtract x y) then y # insertSorted x ys else x # y # ys)"

definition sortAscending :: "number list \<Rightarrow> number list" where
  "sortAscending xs = foldr insertSorted xs []"

definition median :: "number list \<Rightarrow> number" where
  "median sortedData =
     (let n = length sortedData in
      if n mod 2 = 0
      then Number_divide (Number_add (sortedData ! (n div 2 - 1)) (sortedData ! (n div 2)))
             (Finite 2)
      else sortedData ! (n div 2))"

text \<open>
  The frequency object \<open>freq\<close> has one key per number of the data, the number written as
  a string; both zeros are written \<open>0\<close>, and \<open>parseFloat\<close> reads each key back as the
  number it was written from. The model names a key by that number.

  The keys come in the order \<open>Object.entries\<close> lists them: array indices (integers from
  0 to 2^32 - 2) first, ascending, then the other keys in the order they were added,
  which is the order of the sorted data.
\<close>

fun propertyKey :: "number \<Rightarrow> number" where
  "propertyKey NegZero = Finite 0"
| "propertyKey x = x"

fun isArrayIndex :: "number \<Rightarrow> bool" where
  "isArrayIndex (Finite x) = (x = of_int \<lfloor>x\<rfloor> \<and> 0 \<le> x \<and> x < 4294967295)"
| "isArrayIndex x = False"

definition frequencyKeys :: "number list \<Rightarrow> number list" where
  "frequencyKeys sortedData =
     (let ks = remdups_adj (map propertyKey sortedData)
      in filter isArrayIndex ks @ filter (\<lambda>k. \<not> isArrayIndex k) ks)"

definition mode :: "number list \<Rightarrow> number list" where
  "mode sortedData =
     (let freq = (\<lambda>k. length (filter (\<lambda>x. propertyKey x = k) sortedData));
          maxFreq = Max (set (map freq (frequencyKeys sortedData)))
      in filter (\<lambda>k. freq k = maxFreq) (frequencyKeys sortedData))"

text \<open>\<open>sorted.reduce((acc, n) => acc + Math.pow(n - mean, 2), 0) / n\<close>\<close>

definition variance :: "number list \<Rightarrow> number \<Rightarrow> number" where
  "variance sortedData mean =
     Number_divide
       (foldl (\<lambda>acc n. Number_add acc (Math_pow_2 (Number_subtract n mean))) (Finite 0)
          sortedData)
       (Number_of_nat (length sortedData))"

text \<open>One \<open>if (operations.includes(name)) results.key = value\<close> statement.\<close>

definition whenOperation ::
  "jsvalue \<Rightarrow> string \<Rightarrow> (string \<times> jsvalue) list \<Rightarrow> (string \<times> jsvalue) list \<Rightarrow>
   exn + (string \<times> jsvalue) list" where
  "whenOperation operations name entries results =
     bindS (operations_includes operations name)
       (\<lambda>b. Inr (if b then results @ entries else results))"

definition statistics ::
  "jsvalue \<Rightarrow> number list \<Rightarrow> exn + (string \<times> jsvalue) list" where
  "statistics operations sortedData =
     (let n = length sortedData;
          total = foldl Number_add (Finite 0) sortedData;
          mean = Number_divide total (Number_of_nat n)
      in
      bindS (whenOperation operations ''count'' [(''count'', JNum (Number_of_nat n))] []) (\<lambda>r.
      bindS (whenOperation operations ''sum'' [(''sum'', JNum total)] r) (\<lambda>r.
      bindS (whenOperation operations ''mean'' [(''mean'', JNum mean)] r) (\<lambda>r.
      bindS (whenOperation operations ''min'' [(''min'', JNum (sortedData ! 0))] r) (\<lambda>r.
      bindS (whenOperation operations ''max'' [(''max'', JNum (sortedData ! (n - 1)))] r) (\<lambda>r.
      bindS (whenOperation operations ''median'' [(''median'', JNum (median sortedData))] r) (\<lambda>r.
      bindS (whenOperation operations ''mode''
               [(''mode'', JArr (map JNum (mode sortedData)))] r) (\<lambda>r.
      bindS (bindS (operations_includes operations ''variance'') (\<lambda>v.
             if v then Inr True else operations_includes operations ''std'')) (\<lambda>b.
      bindS (Inr (if b then r @ [(''variance'', JNum (variance sortedData mean)),
                                 (''std'', JNum (Math_sqrt (variance sortedData mean)))]
                  else r)) (\<lambda>r.
      whenOperation operations ''quartiles''
        [(''q1'', JNum (sortedData ! (n div 4))),
         (''q3'', JNum (sortedData ! (3 * n div 4))),
         (''iqr'', JNum (Number_subtract (sortedData ! (3 * n div 4))
                           (sortedData ! (n div 4))))] r))))))))))"

definition failed :: "string \<Rightarrow> ToolResult" where
  "failed msg = \<lparr>tool_success = False, tool_data = JUndefined, tool_error = Some msg,
                 tool_metadata = None\<rparr>"

text \<open>The \<open>try\<close> block of the tool's \<open>execute\<close>.\<close>

definition statisticalAnalysis_try :: "jsvalue \<Rightarrow> exn + ToolResult" where
  "statisticalAnalysis_try params =
     bindS (getProp params ''data'') (\<lambda>data.
     bindS (getProp params ''operations'') (\<lambda>requested.
       let operations = (if truthy requested then requested else defaultOperations) in
       case data of
         JArr vs \<Rightarrow>
           if length vs = 0 then Inr (failed ''Data must be a non-empty array of numbers'')
           else if length (numericData vs) = 0
           then Inr (failed ''No valid numeric values in data'')
           else
             (let sortedData = sortAscending (numericData vs) in
              bindS (statistics operations sortedData) (\<lambda>results.
                Inr \<lparr>tool_success = True, tool_data = JObj results, tool_error = None,
                     tool_metadata = Some [(''dataSize'', JNum (Number_of_nat (length sortedData))),
                                           (''operationsPerformed'', operations)]\<rparr>))
       | other \<Rightarrow> Inr (failed ''Data must be a non-empty array of numbers'')))"

definition statisticalAnalysisTool_execute :: "jsvalue \<Rightarrow> ToolResult" where
  "statisticalAnalysisTool_execute params =
     (case statisticalAnalysis_try params of
        Inr result \<Rightarrow> result
      | Inl error \<Rightarrow> failed (error_message ''Unknown error'' error))"

definition statisticalAnalysisTool :: "'w Tool" where
  "statisticalAnalysisTool =
     \<lparr>tool_definition =
        \<lparr>def_name = ''statistical_analysis'',
         def_description = ''Perform statistical analysis on numerical data including mean, median, mode, standard deviation, and variance'',
         def_parameters =
           [(''data'',
             \<lparr>param_type = PArray, param_description = ''Array of numerical values to analyze'',
              param_required = Some True, param_enum = None, param_default = JUndefined\<rparr>),
            (''operations'',
             \<lparr>param_type = PArray,
              param_description = ''Statistical operations to perform: mean, median, mode, std, variance, min, max, sum, count'',
              param_required = Some False, param_enum = None,
              param_default = defaultOperations\<rparr>)]\<rparr>,
      tool_execute = (\<lambda>params. returnE (statisticalAnalysisTool_execute params))\<rparr>"

section \<open>Notions used in the proofs\<close>

text \<open>A computation keeps an observation \<open>g\<close> of the state when no run of it changes \<open>g\<close>.\<close>

definition keeps :: "('s \<Rightarrow> 'b) \<Rightarrow> ('a, 's) eff \<Rightarrow> bool" where
  "keeps g m = (\<forall>s. g (snd (m s)) = g s)"

text \<open>
  \<open>JSON.stringify\<close> accepts the results of the tool calls \<open>tcs\<close>: whatever one of these
  calls returns when it is run on the registry of \<open>s\<close>, in any state of the world, has a
  JSON text.
\<close>

definition resultsSerialise ::
  "'w env \<Rightarrow> ('w, 'z) Agent_scheme \<Rightarrow> LLMToolCall list \<Rightarrow> bool" where
  "resultsSerialise env s tcs =
     (\<forall>tc \<in> set tcs. \<forall>v (s0 :: ('w, 'z) Agent_scheme) result s1.
        JSON_parse env (fn_arguments tc) = Inr v \<longrightarrow>
        tools s0 = tools s \<longrightarrow>
        executeToolCall \<lparr>tc_id = call_id tc, toolName = fn_name tc, tc_arguments = v\<rparr> s0
          = (Inr result, s1) \<longrightarrow>
        (\<exists>content. JSON_stringify_result env result = Inr content))"

text \<open>The two stored message lists of an agent: \<open>messageHistory\<close> and \<open>state.messages\<close>.\<close>

definition history :: "('w, 'z) Agent_scheme \<Rightarrow> AgentMessage list \<times> AgentMessage list" where
  "history s = (messageHistory s, state_messages s)"

text \<open>
  A computation ignores a change \<open>u\<close> of the state when running it after the change is
  running it before the change: same outcome, and the change carried over to the final
  state.
\<close>

definition ignores :: "('s \<Rightarrow> 's) \<Rightarrow> ('a, 's) eff \<Rightarrow> bool" where
  "ignores u m = (\<forall>s. m (u s) = (case m s of (r, s') \<Rightarrow> (r, u s')))"

text \<open>The same agent with other stored message lists.\<close>

definition withHistory ::
  "AgentMessage list \<Rightarrow> AgentMessage list \<Rightarrow> ('w, 'z) Agent_scheme \<Rightarrow> ('w, 'z) Agent_scheme" where
  "withHistory h ms s = s\<lparr>messageHistory := h, state_messages := ms\<rparr>"

section \<open>Example environments and agents\<close>

text \<open>
  A small world for concrete runs: the world is a counter, every clock reading and
  every uuid advances it, the default backend answers "done" and stops. \<open>JSON.parse\<close> is
  given on the argument strings the examples use: it accepts \<open>{}\<close>, the empty object,
  and rejects the others, as it does \<open>{broken\<close>. \<open>JSON.stringify\<close> abbreviates the texts
  it returns, and throws its \<open>TypeError\<close> on a tool result whose data is a \<open>BigInt\<close>.
\<close>

definition stop_response :: ZaiResponse where
  "stop_response =
     \<lparr>zai_choices = [\<lparr>zai_content = Some ''done'', zai_tool_calls = None,
                      zai_finish_reason = Stop\<rparr>],
      zai_usage = None\<rparr>"

definition demo_env :: "nat env" where
  "demo_env =
     \<lparr>uuidv4 = (\<lambda>w. (''id-'' @ replicate w (CHR ''x''), Suc w)),
      Date_now = (\<lambda>w. (1000 + int w, Suc w)),
      JSON_parse = (\<lambda>s. if s = ''{}'' then Inr (JObj []) else Inl (JsError ''Unexpected token'')),
      JSON_stringify = (\<lambda>v. ''[json]''),
      JSON_stringify_indent = (\<lambda>v. ''[json]''),
      JSON_stringify_result =
        (\<lambda>r. case tool_data r of
                JBigInt n \<Rightarrow> Inl (JsError ''Do not know how to serialize a BigInt'')
              | other \<Rightarrow> Inr (if tool_success r then ''[ok]'' else ''[failed]'')),
      String_of = (\<lambda>v. case v of JStr s \<Rightarrow> s | other \<Rightarrow> ''[value]''),
      createChatCompletion = (\<lambda>request. throwE (JsError ''no provider'')),
      ZAI_create = returnE (),
      zai_completions_create = (\<lambda>request. returnE stop_response)\<rparr>"

definition demo_config :: AgentConfig where
  "demo_config =
     \<lparr>cfg_id = ''demo'', cfg_name = ''Demo Agent'', cfg_description = ''an agent for examples'',
      cfg_role = Specialist, cfg_domain = General, cfg_model = None, cfg_temperature = None,
      cfg_maxTokens = None, systemPrompt = None\<rparr>"

text \<open>A tool whose body throws, and an agent that has it registered.\<close>

definition boom_tool :: "nat Tool" where
  "boom_tool =
     \<lparr>tool_definition = \<lparr>def_name = ''boom'', def_description = ''always throws'',
                          def_parameters = []\<rparr>,
      tool_execute = (\<lambda>params. throwE (JsError ''boom''))\<rparr>"

definition demo_agent :: "nat Agent" where
  "demo_agent =
     registerTool boom_tool
       \<lparr>config = demo_config, status = Idle, currentTask = None, lastActivity = None,
        state_messages = [], state_context = [], tools = [], zai = False,
        messageHistory = [], providerType = Openai, providerConfig_model = None,
        llmCalls = 0, world = 0\<rparr>"

text \<open>
  An orchestrator with two sub-agents: one that answers and one whose \<open>execute\<close> throws.
  The delegation tools registered with them are not run in the examples.
\<close>

definition empty_orchestrator :: "nat Orchestrator" where
  "empty_orchestrator =
     \<lparr>config = demo_config, status = Idle, currentTask = None, lastActivity = None,
      state_messages = [], state_context = [], tools = [], zai = False,
      messageHistory = [], providerType = Openai, providerConfig_model = None,
      llmCalls = 0, world = 0, subAgents = [], pendingTasks = [], completedTasks = []\<rparr>"

definition worker :: "nat AgentRef" where
  "worker =
     \<lparr>agent_id = ''worker'', agent_name = ''Worker Agent'',
      agent_execute = (\<lambda>task. returnE \<lparr>res_success = True, res_output = JStr ''done'',
                                          res_error = None, res_artifacts = None,
                                          res_executionTime = Some 5\<rparr>)\<rparr>"

definition crasher :: "nat AgentRef" where
  "crasher =
     \<lparr>agent_id = ''crasher'', agent_name = ''Crashing Agent'',
      agent_execute = (\<lambda>task. throwE (JsError ''sub-agent crashed''))\<rparr>"

definition idle_body :: "jsvalue \<Rightarrow> (ToolResult, nat) eff" where
  "idle_body params = returnE \<lparr>tool_success = True, tool_data = JUndefined, tool_error = None,
                               tool_metadata = None\<rparr>"

definition demo_orchestrator :: "nat Orchestrator" where
  "demo_orchestrator =
     registerSubAgent crasher [''crash''] idle_body
       (registerSubAgent worker [''work''] idle_body empty_orchestrator)"

text \<open>An orchestrator whose only sub-agent was configured with the empty string as id.\<close>

definition unnamed_orchestrator :: "nat Orchestrator" where
  "unnamed_orchestrator =
     registerSubAgent
       \<lparr>agent_id = [], agent_name = ''Translator'',
        agent_execute = (\<lambda>task. throwE (JsError ''not run''))\<rparr>
       [''translate''] idle_body empty_orchestrator"

text \<open>
  Three more backends: one that asks for the \<open>boom\<close> tool on every turn, one that does
  the same with an argument string that is not JSON, and one that is unreachable.
\<close>

definition boom_call :: LLMToolCall where
  "boom_call = \<lparr>call_id = ''call-1'', fn_name = ''boom'', fn_arguments = ''{}''\<rparr>"

definition calling_response :: ZaiResponse where
  "calling_response =
     \<lparr>zai_choices = [\<lparr>zai_content = Some ''calling a tool'', zai_tool_calls = Some [boom_call],
                      zai_finish_reason = Tool_calls\<rparr>],
      zai_usage = None\<rparr>"

definition calling_env :: "nat env" where
  "calling_env = demo_env\<lparr>zai_completions_create := (\<lambda>request. returnE calling_response)\<rparr>"

definition garbled_call :: LLMToolCall where
  "garbled_call = \<lparr>call_id = ''call-1'', fn_name = ''boom'', fn_arguments = ''{broken''\<rparr>"

definition garbled_response :: ZaiResponse where
  "garbled_response =
     \<lparr>zai_choices = [\<lparr>zai_content = Some ''calling a tool'',
                      zai_tool_calls = Some [garbled_call],
                      zai_finish_reason = Tool_calls\<rparr>],
      zai_usage = None\<rparr>"

definition garbled_env :: "nat env" where
  "garbled_env = demo_env\<lparr>zai_completions_create := (\<lambda>request. returnE garbled_response)\<rparr>"


text \<open>
  A tool that returns a \<open>BigInt\<close>, an agent that has it registered, and a backend that
  asks for it on every turn.
\<close>

definition balance_tool :: "nat Tool" where
  "balance_tool =
     \<lparr>tool_definition = \<lparr>def_name = ''balance'', def_description = ''returns a BigInt'',
                          def_parameters = []\<rparr>,
      tool_execute = (\<lambda>params. returnE \<lparr>tool_success = True, tool_data = JBigInt 10,
                                            tool_error = None, tool_metadata = None\<rparr>)\<rparr>"

definition ledger_agent :: "nat Agent" where
  "ledger_agent =
     registerTool balance_tool
       \<lparr>config = demo_config, status = Idle, currentTask = None, lastActivity = None,
        state_messages = [], state_context = [], tools = [], zai = False,
        messageHistory = [], providerType = Openai, providerConfig_model = None,
        llmCalls = 0, world = 0\<rparr>"

definition balance_call :: LLMToolCall where
  "balance_call = \<lparr>call_id = ''call-1'', fn_name = ''balance'', fn_arguments = ''{}''\<rparr>"

definition balance_response :: ZaiResponse where
  "balance_response =
     \<lparr>zai_choices = [\<lparr>zai_content = Some ''calling a tool'',
                      zai_tool_calls = Some [balance_call],
                      zai_finish_reason = Tool_calls\<rparr>],
      zai_usage = None\<rparr>"

definition ledger_env :: "nat env" where
  "ledger_env = demo_env\<lparr>zai_completions_create := (\<lambda>request. returnE balance_response)\<rparr>"

text \<open>An agent without tools, and a task.\<close>

definition plain_agent :: "nat Agent" where
  "plain_agent =
     \<lparr>config = demo_config, status = Idle, currentTask = None, lastActivity = None,
      state_messages = [], state_context = [], tools = [], zai = False,
      messageHistory = [], providerType = Openai, providerConfig_model = None,
      llmCalls = 0, world = 0\<rparr>"


section \<open>Tool execution is total\<close>

lemma executeToolCall_unknown:
  "Map_get (tools s) (toolName toolCall) = None \<Longrightarrow>
   executeToolCall toolCall s =
     (Inr \<lparr>tool_success = False, tool_data = JUndefined,
           tool_error = Some (''Unknown tool: '' @ toolName toolCall), tool_metadata = None\<rparr>, s)"
  by (simp add: executeToolCall_def)

lemma executeToolCall_known:
  "Map_get (tools s) (toolName toolCall) = Some tool \<Longrightarrow>
   executeToolCall toolCall s =
     (case tool_execute tool (tc_arguments toolCall) (world s) of
        (Inl e, w') \<Rightarrow>
          (Inr \<lparr>tool_success = False, tool_data = JUndefined,
                tool_error = Some (error_message ''Unknown error'' e), tool_metadata = None\<rparr>,
           s\<lparr>world := w'\<rparr>)
      | (Inr r, w') \<Rightarrow> (Inr r, s\<lparr>world := w'\<rparr>))"
  by (simp add: executeToolCall_def tryCatch_def inWorld_def returnE_def
           split: prod.splits sum.splits)

lemma executeToolCall_returns: "\<exists>result s'. executeToolCall toolCall s = (Inr result, s')"
proof (cases "Map_get (tools s) (toolName toolCall)")
  case None
  then show ?thesis by (simp add: executeToolCall_unknown)
next
  case (Some tool)
  then show ?thesis
    by (simp add: executeToolCall_known split: prod.splits sum.splits)
qed

text \<open>
  C6. \<open>executeToolCall\<close> never throws. For a name that is not in the registry it
  returns a failed result naming the tool and leaves the agent as it was; when the body
  of the registered tool throws, it returns a failed result carrying the error's message
  (\<open>Unknown error\<close> for a thrown value that is not an \<open>Error\<close>).
\<close>

theorem executeToolCall_never_throws:
  "(\<exists>result. fst (executeToolCall toolCall s) = Inr result) \<and>
   (Map_get (tools s) (toolName toolCall) = None \<longrightarrow>
      executeToolCall toolCall s =
        (Inr \<lparr>tool_success = False, tool_data = JUndefined,
              tool_error = Some (''Unknown tool: '' @ toolName toolCall),
              tool_metadata = None\<rparr>, s)) \<and>
   (\<forall>tool e w'.
      Map_get (tools s) (toolName toolCall) = Some tool \<and>
      tool_execute tool (tc_arguments toolCall) (world s) = (Inl e, w') \<longrightarrow>
      executeToolCall toolCall s =
        (Inr \<lparr>tool_success = False, tool_data = JUndefined,
              tool_error = Some (error_message ''Unknown error'' e),
              tool_metadata = None\<rparr>, s\<lparr>world := w'\<rparr>))"
proof (intro conjI allI impI)
  show "\<exists>result. fst (executeToolCall toolCall s) = Inr result"
    using executeToolCall_returns [of toolCall s] by auto
next
  assume "Map_get (tools s) (toolName toolCall) = None"
  then show "executeToolCall toolCall s =
        (Inr \<lparr>tool_success = False, tool_data = JUndefined,
              tool_error = Some (''Unknown tool: '' @ toolName toolCall),
              tool_metadata = None\<rparr>, s)"
    by (rule executeToolCall_unknown)
next
  fix tool e w'
  assume "Map_get (tools s) (toolName toolCall) = Some tool \<and>
      tool_execute tool (tc_arguments toolCall) (world s) = (Inl e, w')"
  then show "executeToolCall toolCall s =
        (Inr \<lparr>tool_success = False, tool_data = JUndefined,
              tool_error = Some (error_message ''Unknown error'' e),
              tool_metadata = None\<rparr>, s\<lparr>world := w'\<rparr>)"
    by (simp add: executeToolCall_known)
qed

theorem executeToolCall_never_throws_witness:
  "Map_get (tools demo_agent) ''missing'' = None \<and>
   executeToolCall \<lparr>tc_id = ''c1'', toolName = ''missing'', tc_arguments = JObj []\<rparr> demo_agent =
     (Inr \<lparr>tool_success = False, tool_data = JUndefined,
           tool_error = Some ''Unknown tool: missing'', tool_metadata = None\<rparr>, demo_agent) \<and>
   Map_get (tools demo_agent) ''boom'' = Some boom_tool \<and>
   tool_execute boom_tool (JObj []) (world demo_agent) = (Inl (JsError ''boom''), 0) \<and>
   executeToolCall \<lparr>tc_id = ''c2'', toolName = ''boom'', tc_arguments = JObj []\<rparr> demo_agent =
     (Inr \<lparr>tool_success = False, tool_data = JUndefined,
           tool_error = Some ''boom'', tool_metadata = None\<rparr>, demo_agent\<lparr>world := 0\<rparr>)"
proof -
  have missing: "Map_get (tools demo_agent) ''missing'' = None"
    by (simp add: demo_agent_def registerTool_def boom_tool_def)
  have present: "Map_get (tools demo_agent) ''boom'' = Some boom_tool"
    by (simp add: demo_agent_def registerTool_def boom_tool_def)
  have throws: "tool_execute boom_tool (JObj []) (world demo_agent) = (Inl (JsError ''boom''), 0)"
    by (simp add: demo_agent_def registerTool_def boom_tool_def throwE_def)
  from executeToolCall_never_throws
         [of "\<lparr>tc_id = ''c1'', toolName = ''missing'', tc_arguments = JObj []\<rparr>" demo_agent]
       executeToolCall_never_throws
         [of "\<lparr>tc_id = ''c2'', toolName = ''boom'', tc_arguments = JObj []\<rparr>" demo_agent]
       missing present throws
  show ?thesis by simp
qed

section \<open>Delegation\<close>

lemma Map_get_set_same: "Map_get (Map_set m k v) k = Some v"
  by (induction m) auto

lemma Map_get_delete_same: "Map_get (Map_delete m k) k = None"
  by (induction m) auto

lemma Map_delete_set_same: "Map_delete (Map_set m k v) k = Map_delete m k"
  by (induction m) auto

lemma Map_delete_assign:
  "Map_delete (map (\<lambda>(k', t). if k' = k then (k', v) else (k', t)) m) k = Map_delete m k"
  by (induction m) auto

lemma delegateTask_traced_unknown:
  "Map_get (subAgents s) agentId = None \<Longrightarrow>
   delegateTask_traced env agentId taskDescription context s =
     (Inr (\<lparr>res_success = False, res_output = JUndefined,
            res_error = Some (''Sub-agent not found: '' @ agentId),
            res_artifacts = None, res_executionTime = None\<rparr>, None), s)"
  by (simp add: delegateTask_traced_def)

text \<open>
  C5. For an agent id that is not a key of \<open>subAgents\<close>, \<open>delegateTask\<close> returns a failed
  result without throwing and leaves the orchestrator exactly as it was: \<open>pendingTasks\<close>
  and \<open>completedTasks\<close> are unchanged and no task object is created.
\<close>

theorem delegateTask_unknown_agent:
  "Map_get (subAgents s) agentId = None \<Longrightarrow>
   delegateTask env agentId taskDescription context s =
     (Inr \<lparr>res_success = False, res_output = JUndefined,
           res_error = Some (''Sub-agent not found: '' @ agentId),
           res_artifacts = None, res_executionTime = None\<rparr>, s) \<and>
   pendingTasks (snd (delegateTask env agentId taskDescription context s)) = pendingTasks s \<and>
   completedTasks (snd (delegateTask env agentId taskDescription context s)) = completedTasks s \<and>
   snd (delegateTask env agentId taskDescription context s) = s \<and>
   (\<exists>result. fst (delegateTask_traced env agentId taskDescription context s) = Inr (result, None))"
  by (simp add: delegateTask_def bindE_def returnE_def delegateTask_traced_unknown)

lemma demo_subAgents:
  "subAgents demo_orchestrator =
     [(''worker'', \<lparr>sub_id = ''worker'', sub_name = ''Worker Agent'', sub_agent = worker,
                    capabilities = [''work'']\<rparr>),
      (''crasher'', \<lparr>sub_id = ''crasher'', sub_name = ''Crashing Agent'', sub_agent = crasher,
                     capabilities = [''crash'']\<rparr>)]"
  by (simp add: demo_orchestrator_def registerSubAgent_def registerTool_def
        empty_orchestrator_def worker_def crasher_def)

lemma demo_orchestrator_fields:
  "pendingTasks demo_orchestrator = []" "completedTasks demo_orchestrator = []"
  "world demo_orchestrator = 0"
  by (simp_all add: demo_orchestrator_def registerSubAgent_def registerTool_def
        empty_orchestrator_def)

theorem delegateTask_unknown_agent_witness:
  "Map_get (subAgents demo_orchestrator) ''nobody'' = None \<and>
   delegateTask demo_env ''nobody'' ''tidy up'' JNull demo_orchestrator =
     (Inr \<lparr>res_success = False, res_output = JUndefined,
           res_error = Some ''Sub-agent not found: nobody'',
           res_artifacts = None, res_executionTime = None\<rparr>, demo_orchestrator) \<and>
   pendingTasks (snd (delegateTask demo_env ''nobody'' ''tidy up'' JNull demo_orchestrator)) = []"
proof -
  have unknown: "Map_get (subAgents demo_orchestrator) ''nobody'' = None"
    by (simp add: demo_subAgents)
  from delegateTask_unknown_agent [OF unknown, of demo_env "''tidy up''" JNull] unknown
  show ?thesis by (simp add: demo_orchestrator_fields)
qed

text \<open>
  What a delegation to a registered sub-agent does, step by step: a uuid, two clock
  readings for the new task, the sub-agent's run, one more clock reading.
\<close>

lemma delegateTask_traced_registered:
  assumes "Map_get (subAgents s) agentId = Some subAgent"
      and "uuidv4 env (world s) = (tid, w1)"
      and "Date_now env w1 = (created, w2)"
      and "Date_now env w2 = (updated, w3)"
      and "agent_execute (sub_agent subAgent)
             (Task tid taskDescription Medium In_progress (Some agentId) None None [] None
                   created updated (Some [(''context'', context)])) w3 = (outcome, w4)"
      and "Date_now env w4 = (now, w5)"
  shows "delegateTask_traced env agentId taskDescription context s =
     (let result = (case outcome of
                      Inr r \<Rightarrow> r
                    | Inl e \<Rightarrow> \<lparr>res_success = False, res_output = JUndefined,
                                res_error = Some (error_message ''Unknown error'' e),
                                res_artifacts = None, res_executionTime = None\<rparr>)
      in (Inr (result,
               Some (Task tid taskDescription Medium
                       (if res_success result then Completed else Failed)
                       (Some agentId) None None [] (Some result) created now
                       (Some [(''context'', context)]))),
          s\<lparr>world := w5,
            pendingTasks := Map_delete (pendingTasks s) tid,
            completedTasks := Map_set (completedTasks s) tid result\<rparr>))"
  using assms
  by (cases outcome)
     (simp_all add: delegateTask_traced_def bindE_def readWorld_def modify_def tryCatch_def
        inWorld_def returnE_def settle_def assignTask_def moveToCompleted_def Let_def
        Map_delete_set_same Map_delete_assign)

text \<open>
  C2. For a registered sub-agent id, whether the sub-agent's \<open>execute\<close> returns or
  throws: \<open>delegateTask\<close> returns a result; a thrown error has become a failed result
  carrying its message; the id of the task created is no longer a key of \<open>pendingTasks\<close>
  and is a key of \<open>completedTasks\<close>, bound to the result; the task's status is
  \<open>completed\<close> if the result is a success and \<open>failed\<close> otherwise; and \<open>task.updatedAt\<close>
  is the clock reading taken after the sub-agent's run.
\<close>

theorem delegateTask_settles_task:
  assumes "Map_get (subAgents s) agentId = Some subAgent"
      and "uuidv4 env (world s) = (tid, w1)"
      and "Date_now env w1 = (created, w2)"
      and "Date_now env w2 = (updated, w3)"
      and "agent_execute (sub_agent subAgent)
             (Task tid taskDescription Medium In_progress (Some agentId) None None [] None
                   created updated (Some [(''context'', context)])) w3 = (outcome, w4)"
      and "Date_now env w4 = (now, w5)"
  shows "\<exists>result task s'.
           delegateTask_traced env agentId taskDescription context s =
             (Inr (result, Some task), s') \<and>
           delegateTask env agentId taskDescription context s = (Inr result, s') \<and>
           result = (case outcome of
                       Inr r \<Rightarrow> r
                     | Inl e \<Rightarrow> \<lparr>res_success = False, res_output = JUndefined,
                                 res_error = Some (error_message ''Unknown error'' e),
                                 res_artifacts = None, res_executionTime = None\<rparr>) \<and>
           task_id task = tid \<and>
           Map_get (pendingTasks s') tid = None \<and>
           Map_get (completedTasks s') tid = Some result \<and>
           pendingTasks s' = Map_delete (pendingTasks s) tid \<and>
           completedTasks s' = Map_set (completedTasks s) tid result \<and>
           task_status task = (if res_success result then Completed else Failed) \<and>
           task_result task = Some result \<and>
           updatedAt task = now"
  using delegateTask_traced_registered [OF assms]
  by (simp add: Let_def delegateTask_def bindE_def returnE_def
        Map_get_delete_same Map_get_set_same)

theorem delegateTask_settles_task_witness:
  "Map_get (subAgents demo_orchestrator) ''crasher'' =
     Some \<lparr>sub_id = ''crasher'', sub_name = ''Crashing Agent'', sub_agent = crasher,
           capabilities = [''crash'']\<rparr> \<and>
   uuidv4 demo_env (world demo_orchestrator) = (''id-'', 1) \<and>
   Date_now demo_env 1 = (1001, 2) \<and>
   Date_now demo_env 2 = (1002, 3) \<and>
   agent_execute crasher
     (Task ''id-'' ''tidy up'' Medium In_progress (Some ''crasher'') None None [] None
           1001 1002 (Some [(''context'', JNull)])) 3 = (Inl (JsError ''sub-agent crashed''), 3) \<and>
   Date_now demo_env 3 = (1003, 4) \<and>
   (\<exists>task s'.
      delegateTask_traced demo_env ''crasher'' ''tidy up'' JNull demo_orchestrator =
        (Inr (\<lparr>res_success = False, res_output = JUndefined,
               res_error = Some ''sub-agent crashed'',
               res_artifacts = None, res_executionTime = None\<rparr>, Some task), s') \<and>
      Map_get (pendingTasks s') ''id-'' = None \<and>
      Map_get (completedTasks s') ''id-'' =
        Some \<lparr>res_success = False, res_output = JUndefined,
              res_error = Some ''sub-agent crashed'',
              res_artifacts = None, res_executionTime = None\<rparr> \<and>
      task_id task = ''id-'' \<and> task_status task = Failed \<and> updatedAt task = 1003)"
proof -
  have registered: "Map_get (subAgents demo_orchestrator) ''crasher'' =
     Some \<lparr>sub_id = ''crasher'', sub_name = ''Crashing Agent'', sub_agent = crasher,
           capabilities = [''crash'']\<rparr>"
    by (simp add: demo_subAgents)
  have uuid: "uuidv4 demo_env (world demo_orchestrator) = (''id-'', 1)"
    by (simp add: demo_env_def demo_orchestrator_fields)
  have t1: "Date_now demo_env 1 = (1001, 2)" by (simp add: demo_env_def)
  have t2: "Date_now demo_env 2 = (1002, 3)" by (simp add: demo_env_def)
  have t3: "Date_now demo_env 3 = (1003, 4)" by (simp add: demo_env_def)
  have run: "agent_execute (sub_agent \<lparr>sub_id = ''crasher'', sub_name = ''Crashing Agent'',
                                       sub_agent = crasher, capabilities = [''crash'']\<rparr>)
     (Task ''id-'' ''tidy up'' Medium In_progress (Some ''crasher'') None None [] None
           1001 1002 (Some [(''context'', JNull)])) 3 = (Inl (JsError ''sub-agent crashed''), 3)"
    by (simp add: crasher_def throwE_def)
  from delegateTask_settles_task [OF registered uuid t1 t2 run t3]
       registered uuid t1 t2 run t3
  show ?thesis by auto
qed

section \<open>Agent selection\<close>

lemma matchingAgent_find:
  "matchingAgent task m =
     map_option fst
       (find (\<lambda>(k, a). \<exists>c \<in> set (capabilities a). includes_str task (toLowerCase c)) m)"
  by (induction m) (auto simp: list_ex_iff)

text \<open>
  What \<open>selectBestAgent\<close> computes: the key of the first entry, in the order of the map,
  one of whose capabilities, lower-cased, occurs in the lower-cased description; without
  such an entry the id of the first entry, unless that id is the empty string.
\<close>

lemma selectBestAgent_first_match:
  "find (\<lambda>(k, a). \<exists>c \<in> set (capabilities a).
           sublist (toLowerCase c) (toLowerCase taskDescription)) (subAgents s) = Some (k, a)
   \<Longrightarrow> selectBestAgent taskDescription s = Some k"
  by (simp add: selectBestAgent_def matchingAgent_find includes_str_def)

lemma selectBestAgent_no_match:
  "find (\<lambda>(k, a). \<exists>c \<in> set (capabilities a).
           sublist (toLowerCase c) (toLowerCase taskDescription)) (subAgents s) = None
   \<Longrightarrow> selectBestAgent taskDescription s =
       (case subAgents s of
          [] \<Rightarrow> None
        | (k, firstAgent) # rest \<Rightarrow> if sub_id firstAgent = [] then None
                                    else Some (sub_id firstAgent))"
  by (simp add: selectBestAgent_def matchingAgent_find includes_str_def)

lemma toLowerCase_scenario:
  "toLowerCase ''search the web for X'' = ''search the web for x''"
  "toLowerCase ''analytics'' = ''analytics''"
  "toLowerCase ''search'' = ''search''"
  by (simp_all add: toLowerCase_def toLowerCase_char_def)

text \<open>
  The scenario of the specification: with capabilities \<open>["analytics"]\<close> and
  \<open>["search", "web"]\<close> registered in that order, the second sub-agent is selected.
\<close>

lemma selectBestAgent_scenario:
  assumes "subAgents s = []"
  shows "selectBestAgent ''search the web for X''
           (registerSubAgent \<lparr>agent_id = id2, agent_name = n2, agent_execute = e2\<rparr>
              [''search'', ''web''] b2
              (registerSubAgent \<lparr>agent_id = id1, agent_name = n1, agent_execute = e1\<rparr>
                 [''analytics''] b1 s)) = Some id2"
  using assms
  by (simp add: selectBestAgent_def registerSubAgent_def registerTool_def
        toLowerCase_scenario includes_str_def sublist_Cons_right)

text \<open>
  C8 says that \<open>selectBestAgent\<close> returns \<open>null\<close> only when no sub-agent is registered,
  and the first registered sub-agent's id when no capability matches. With a first
  sub-agent whose id is the empty string the fallback \<open>firstAgent?.id || null\<close> yields
  \<open>null\<close> although a sub-agent is registered.
\<close>

theorem selectBestAgent_empty_id:
  "subAgents unnamed_orchestrator \<noteq> [] \<and>
   selectBestAgent ''summarise this report'' unnamed_orchestrator = None"
  by (simp add: unnamed_orchestrator_def registerSubAgent_def registerTool_def
        empty_orchestrator_def selectBestAgent_def toLowerCase_def toLowerCase_char_def
        includes_str_def sublist_Cons_right)

section \<open>The statistics scenario\<close>

text \<open>Arithmetic on finite numbers is exact arithmetic followed by one rounding.\<close>

lemma Number_add_Finite: "Number_add (Finite a) (Finite b) = roundToNumber (a + b)"
  by (simp add: Number_add_def)

lemma Number_subtract_Finite: "Number_subtract (Finite a) (Finite b) = roundToNumber (a - b)"
  by (simp add: Number_subtract_def Number_add_def)

lemma Number_multiply_Finite:
  "a \<noteq> 0 \<Longrightarrow> b \<noteq> 0 \<Longrightarrow> Number_multiply (Finite a) (Finite b) = roundToNumber (a * b)"
  by (simp add: Number_multiply_def)

lemma Number_divide_Finite:
  "a \<noteq> 0 \<Longrightarrow> b \<noteq> 0 \<Longrightarrow> Number_divide (Finite a) (Finite b) = roundToNumber (a / b)"
  by (simp add: Number_divide_def)

text \<open>The small integers of the scenario are numbers: rounding leaves them as they are.\<close>

lemma roundToNumber_small:
  "roundToNumber (- 2) = Finite (- 2)" "roundToNumber (- 1) = Finite (- 1)"
  "roundToNumber 0 = Finite 0" "roundToNumber 1 = Finite 1" "roundToNumber 2 = Finite 2"
  "roundToNumber 3 = Finite 3" "roundToNumber 4 = Finite 4" "roundToNumber 5 = Finite 5"
  "roundToNumber 6 = Finite 6" "roundToNumber 10 = Finite 10" "roundToNumber 15 = Finite 15"
  by code_simp+

text \<open>
  Rounding is not the identity: the sum of the numbers written \<open>0.1\<close> and \<open>0.2\<close> is the
  number written \<open>0.30000000000000004\<close>, not the one written \<open>0.3\<close>.
\<close>

lemma Number_add_rounds:
  "Number_add (roundToNumber (1 / 10)) (roundToNumber (2 / 10)) =
     Finite (1351079888211149 / 4503599627370496) \<and>
   roundToNumber (3 / 10) = Finite (5404319552844595 / 18014398509481984)"
  by code_simp

text \<open>
  \<open>Math.sqrt(2)\<close> is the number \<open>6369051672525773 / 2^52\<close>, written
  \<open>1.4142135623730951\<close>. It lies within half a unit of its last digit of the square root
  of 2, and it is not a square root of 2: the number for its square is \<open>2 + 2^-51\<close>,
  written \<open>2.0000000000000004\<close>.
\<close>

lemma roundSqrt_2: "roundSqrt 2 = 6369051672525773 / 4503599627370496"
  by code_simp

lemma Math_sqrt_2: "Math_sqrt (Finite 2) = Finite (6369051672525773 / 4503599627370496)"
  by (simp add: roundSqrt_2)

lemma Math_sqrt_2_squared:
  "Number_multiply (Finite (6369051672525773 / 4503599627370496))
     (Finite (6369051672525773 / 4503599627370496)) =
   Finite (4503599627370497 / 2251799813685248)"
  by code_simp

lemma abs_diff_less: "x - h < y \<Longrightarrow> y < x + h \<Longrightarrow> \<bar>x - y\<bar> < h" for x y h :: real
  by linarith

lemma Math_sqrt_2_nearest:
  "\<bar>real_of_rat (6369051672525773 / 4503599627370496) - sqrt 2\<bar> < 1 / 2 ^ 53"
proof -
  let ?d = "6369051672525773 / 4503599627370496 :: real"
  let ?h = "1 / 2 ^ 53 :: real"
  have lo: "(?d - ?h)\<^sup>2 < 2" by (simp add: power2_eq_square)
  have hi: "2 < (?d + ?h)\<^sup>2" by (simp add: power2_eq_square)
  have a: "?d - ?h < sqrt 2" using lo by (rule real_less_rsqrt)
  have b: "sqrt 2 < ?d + ?h" using hi by (intro real_less_lsqrt) simp_all
  have eq: "real_of_rat (6369051672525773 / 4503599627370496) = ?d"
    by (simp add: of_rat_divide)
  show ?thesis unfolding eq using a b by (rule abs_diff_less)
qed

lemma Math_sqrt_2_inexact:
  "real_of_rat (6369051672525773 / 4503599627370496) \<noteq> sqrt 2"
proof
  assume eq: "real_of_rat (6369051672525773 / 4503599627370496) = sqrt 2"
  have "(real_of_rat (6369051672525773 / 4503599627370496))\<^sup>2 = 2"
    unfolding eq by simp
  then show False by (simp add: of_rat_divide power2_eq_square)
qed

text \<open>The run of the tool on \<open>[1, 2, 3, 4, 5]\<close> with the operations mean, median and std.\<close>

lemma statisticalAnalysis_run:
  "statisticalAnalysisTool_execute
     (JObj [(''data'', JArr [JNum (Finite 1), JNum (Finite 2), JNum (Finite 3),
                            JNum (Finite 4), JNum (Finite 5)]),
            (''operations'', JArr [JStr ''mean'', JStr ''median'', JStr ''std''])]) =
   \<lparr>tool_success = True,
     tool_data = JObj [(''mean'', JNum (Finite 3)), (''median'', JNum (Finite 3)),
                       (''variance'', JNum (Finite 2)),
                       (''std'', JNum (Finite (6369051672525773 / 4503599627370496)))],
     tool_error = None,
     tool_metadata = Some [(''dataSize'', JNum (Finite 5)),
                           (''operationsPerformed'',
                            JArr [JStr ''mean'', JStr ''median'', JStr ''std''])]\<rparr>"
  by (simp add: statisticalAnalysisTool_execute_def statisticalAnalysis_try_def bindS_def
        statistics_def whenOperation_def median_def variance_def Let_def sortAscending_def
        Number_of_nat_def Number_add_Finite Number_subtract_Finite Number_divide_Finite
        roundToNumber_small roundSqrt_2)

text \<open>
  C9 says that on \<open>data = [1, 2, 3, 4, 5]\<close> with \<open>operations = ['mean', 'median', 'std']\<close>
  the tool returns \<open>std\<close> equal to the square root of 2, so that \<open>std\<close> squared is 2. The
  \<open>std\<close> it returns is the number \<open>1.4142135623730951\<close>: it is not the square root of 2,
  and its square, computed as the code computes, is \<open>2.0000000000000004\<close>, not 2.
\<close>

theorem statistical_analysis_counterexample:
  "getProp (tool_data (statisticalAnalysisTool_execute
     (JObj [(''data'', JArr [JNum (Finite 1), JNum (Finite 2), JNum (Finite 3),
                            JNum (Finite 4), JNum (Finite 5)]),
            (''operations'', JArr [JStr ''mean'', JStr ''median'', JStr ''std''])]))) ''std'' =
     Inr (JNum (Finite (6369051672525773 / 4503599627370496))) \<and>
   real_of_rat (6369051672525773 / 4503599627370496) \<noteq> sqrt 2 \<and>
   Number_multiply (Finite (6369051672525773 / 4503599627370496))
     (Finite (6369051672525773 / 4503599627370496)) = Finite (2 + 1 / 2 ^ 51) \<and>
   Finite (2 + 1 / 2 ^ 51) \<noteq> Finite 2"
  using Math_sqrt_2_inexact
  by (simp add: statisticalAnalysis_run Math_sqrt_2_squared)

text \<open>
  C9, as the code has it. The statistical analysis tool, run on \<open>data = [1, 2, 3, 4, 5]\<close>
  with \<open>operations = ['mean', 'median', 'std']\<close>, succeeds with \<open>mean = 3\<close>, \<open>median = 3\<close>,
  a variance of exactly 2 and \<open>std = Math.sqrt(2)\<close>, which is the number
  \<open>6369051672525773 / 2^52\<close>, written \<open>1.4142135623730951\<close>: the number nearest to the
  square root of 2, less than \<open>2^-53\<close> away from it. The square of \<open>std\<close> is the number
  \<open>2 + 2^-51\<close>, written \<open>2.0000000000000004\<close>.
\<close>

theorem statistical_analysis_scenario:
  "tool_execute statisticalAnalysisTool
     (JObj [(''data'', JArr [JNum (Finite 1), JNum (Finite 2), JNum (Finite 3),
                            JNum (Finite 4), JNum (Finite 5)]),
            (''operations'', JArr [JStr ''mean'', JStr ''median'', JStr ''std''])]) w =
   (Inr \<lparr>tool_success = True,
         tool_data = JObj [(''mean'', JNum (Finite 3)), (''median'', JNum (Finite 3)),
                           (''variance'', JNum (Finite 2)),
                           (''std'', JNum (Finite (6369051672525773 / 2 ^ 52)))],
         tool_error = None,
         tool_metadata = Some [(''dataSize'', JNum (Finite 5)),
                               (''operationsPerformed'',
                                JArr [JStr ''mean'', JStr ''median'', JStr ''std''])]\<rparr>, w) \<and>
   Math_sqrt (Finite 2) = Finite (6369051672525773 / 2 ^ 52) \<and>
   \<bar>real_of_rat (6369051672525773 / 2 ^ 52) - sqrt 2\<bar> < 1 / 2 ^ 53 \<and>
   Number_multiply (Finite (6369051672525773 / 2 ^ 52)) (Finite (6369051672525773 / 2 ^ 52)) =
     Finite (2 + 1 / 2 ^ 51)"
  using Math_sqrt_2_nearest
  by (simp add: statisticalAnalysisTool_def returnE_def statisticalAnalysis_run roundSqrt_2
        Math_sqrt_2_squared)

section \<open>The agent loop leaves the stored messages alone\<close>

lemma keeps_returnE: "keeps g (returnE x)"
  by (simp add: keeps_def returnE_def)

lemma keeps_throwE: "keeps g (throwE e)"
  by (simp add: keeps_def throwE_def)

lemma keeps_liftE: "keeps g (liftE r)"
  by (simp add: keeps_def liftE_def)

lemma keeps_gets: "keeps g (gets f)"
  by (simp add: keeps_def gets_def)

lemma keeps_modify: "(\<And>s. g (f s) = g s) \<Longrightarrow> keeps g (modify f)"
  by (simp add: keeps_def modify_def)

lemma keeps_bindE: "keeps g m \<Longrightarrow> (\<And>x. keeps g (f x)) \<Longrightarrow> keeps g (bindE m f)"
  unfolding keeps_def bindE_def
proof (intro allI)
  fix s
  assume m: "\<forall>s. g (snd (m s)) = g s" and f: "\<And>x. \<forall>s. g (snd (f x s)) = g s"
  obtain r s' where ms: "m s = (r, s')" by (cases "m s")
  from m ms have "g s' = g s" by (metis snd_conv)
  with f ms show "g (snd (case m s of (Inl e, s') \<Rightarrow> (Inl e, s') | (Inr x, s') \<Rightarrow> f x s')) = g s"
    by (cases r) auto
qed

lemma keeps_tryCatch: "keeps g m \<Longrightarrow> (\<And>e. keeps g (h e)) \<Longrightarrow> keeps g (tryCatch m h)"
  unfolding keeps_def tryCatch_def
proof (intro allI)
  fix s
  assume m: "\<forall>s. g (snd (m s)) = g s" and h: "\<And>e. \<forall>s. g (snd (h e s)) = g s"
  obtain r s' where ms: "m s = (r, s')" by (cases "m s")
  from m ms have "g s' = g s" by (metis snd_conv)
  with h ms show "g (snd (case m s of (Inl e, s') \<Rightarrow> h e s' | (Inr x, s') \<Rightarrow> (Inr x, s'))) = g s"
    by (cases r) auto
qed

lemma keeps_readWorld: "(\<And>s w. g (s\<lparr>world := w\<rparr>) = g s) \<Longrightarrow> keeps g (readWorld f)"
  by (simp add: keeps_def readWorld_def split: prod.splits)

lemma keeps_inWorld: "(\<And>s w. g (s\<lparr>world := w\<rparr>) = g s) \<Longrightarrow> keeps g (inWorld m)"
  by (simp add: keeps_def inWorld_def split: prod.splits)


lemma keeps_state_if:
  "keeps g m \<Longrightarrow> keeps g (\<lambda>s. if c s then m s else (Inr x, s))"
  by (simp add: keeps_def)

lemma keepsD: "keeps g m \<Longrightarrow> m s = (r, s') \<Longrightarrow> g s' = g s"
  by (auto simp: keeps_def dest: spec [of _ s])

lemma history_world [simp]: "history (s\<lparr>world := w\<rparr>) = history s"
  by (simp add: history_def)

lemma history_status [simp]: "history (s\<lparr>status := st\<rparr>) = history s"
  by (simp add: history_def)

lemma history_zai [simp]: "history (s\<lparr>zai := b\<rparr>) = history s"
  by (simp add: history_def)

lemma history_llmCalls [simp]: "history (s\<lparr>llmCalls := n\<rparr>) = history s"
  by (simp add: history_def)

lemma callOpenAI_keeps_history: "keeps history (callOpenAI env request)"
  unfolding callOpenAI_def
  by (intro keeps_bindE keeps_state_if keeps_inWorld keeps_modify keeps_liftE) simp_all

lemma callLLM_keeps_history: "keeps history (callLLM env messages options)"
  unfolding callLLM_def
  by (intro keeps_bindE keeps_modify keeps_gets)
     (auto intro!: keeps_tryCatch keeps_bindE keeps_inWorld keeps_liftE keeps_returnE
        callOpenAI_keeps_history split: option.splits)

lemma executeToolCall_keeps_history: "keeps history (executeToolCall toolCall)"
  unfolding keeps_def
proof
  fix s :: "('a, 'b) Agent_scheme"
  show "history (snd (executeToolCall toolCall s)) = history s"
  proof (cases "Map_get (tools s) (toolName toolCall)")
    case None
    then show ?thesis by (simp add: executeToolCall_unknown)
  next
    case (Some tool)
    then show ?thesis
      by (simp add: executeToolCall_known split: prod.splits sum.splits)
  qed
qed

lemma executeTools_keeps_history: "keeps history (executeTools env response tcs acc)"
proof (induction tcs arbitrary: acc)
  case Nil
  show ?case by (simp add: keeps_returnE)
next
  case (Cons tc tcs)
  show ?case
    unfolding executeTools.simps
    by (intro keeps_bindE keeps_liftE executeToolCall_keeps_history keeps_readWorld Cons.IH)
       simp_all
qed

lemma agentLoop_keeps_history:
  "keeps history (agentLoop env maxIterations iterations messages allMessages
                    :: (AgentMessage list \<times> string, ('w, 'z) Agent_scheme) eff)"
proof (induction env maxIterations iterations messages allMessages rule: agentLoop.induct)
  case (1 env maxIterations iterations messages allMessages)
  show ?case
  proof (cases "int iterations < maxIterations")
    case False
    then show ?thesis
      by (subst agentLoop.simps)
         (auto intro!: keeps_bindE keeps_modify keeps_returnE)
  next
    case True
    have parse: "keeps history
        (case resp_toolCalls r of
           None \<Rightarrow> returnE None
         | Some tcs \<Rightarrow> bindE (liftE (parseToolCalls env tcs)) (\<lambda>p. returnE (Some p)))"
      for r :: LLMResponse
      by (cases "resp_toolCalls r") (auto intro!: keeps_bindE keeps_liftE keeps_returnE)
    have rest: "keeps history
        (if finishReason r = Stop \<or> noToolCalls r then
           bindE (modify (\<lambda>s. s\<lparr>status := Idle\<rparr>)) (\<lambda>u.
             returnE (allMessages @ [m], resp_content r))
         else
           bindE (modify (\<lambda>s. s\<lparr>status := Executing\<rparr>)) (\<lambda>u.
           bindE (executeTools env r (requestedCalls r) (allMessages @ [m], [], messages))
             (\<lambda>acc. agentLoop env maxIterations (Suc iterations)
                      (snd (snd acc) @ fst (snd acc)) (fst acc)))
         :: (AgentMessage list \<times> string, ('w, 'z) Agent_scheme) eff)"
      for r :: LLMResponse and m :: AgentMessage
    proof (cases "finishReason r = Stop \<or> noToolCalls r")
      case stop: True
      then show ?thesis
        by (auto intro!: keeps_bindE keeps_modify keeps_returnE)
    next
      case more: False
      from "1.IH" [OF True refl more] more show ?thesis
        by (auto intro!: keeps_bindE keeps_modify executeTools_keeps_history)
    qed
    show ?thesis
      apply (subst agentLoop.simps)
      apply (simp only: True if_True Let_def)
      apply (intro keeps_bindE keeps_modify callLLM_keeps_history keeps_readWorld parse rest)
        apply simp_all
      done
  qed
qed

section \<open>Turns of the agent loop\<close>

lemma callLLM_counts: "llmCalls (snd (callLLM env messages options s)) = Suc (llmCalls s)"
  by (simp add: callLLM_def callOpenAI_def bindE_def modify_def gets_def tryCatch_def
        inWorld_def liftE_def returnE_def
        split: prod.splits sum.splits option.splits if_splits)

lemma executeToolCall_keeps_llmCalls: "keeps llmCalls (executeToolCall toolCall)"
  unfolding keeps_def
proof
  fix s :: "('a, 'b) Agent_scheme"
  show "llmCalls (snd (executeToolCall toolCall s)) = llmCalls s"
  proof (cases "Map_get (tools s) (toolName toolCall)")
    case None
    then show ?thesis by (simp add: executeToolCall_unknown)
  next
    case (Some tool)
    then show ?thesis
      by (simp add: executeToolCall_known split: prod.splits sum.splits)
  qed
qed

lemma executeTools_keeps_llmCalls: "keeps llmCalls (executeTools env response tcs acc)"
proof (induction tcs arbitrary: acc)
  case Nil
  show ?case by (simp add: keeps_returnE)
next
  case (Cons tc tcs)
  show ?case
    unfolding executeTools.simps
    by (intro keeps_bindE keeps_liftE executeToolCall_keeps_llmCalls keeps_readWorld Cons.IH)
       simp_all
qed

lemma executeToolCall_keeps_tools: "keeps tools (executeToolCall toolCall)"
  unfolding keeps_def
proof
  fix s :: "('a, 'b) Agent_scheme"
  show "tools (snd (executeToolCall toolCall s)) = tools s"
  proof (cases "Map_get (tools s) (toolName toolCall)")
    case None
    then show ?thesis by (simp add: executeToolCall_unknown)
  next
    case (Some tool)
    then show ?thesis
      by (simp add: executeToolCall_known split: prod.splits sum.splits)
  qed
qed

lemma executeTools_keeps_tools: "keeps tools (executeTools env response tcs acc)"
proof (induction tcs arbitrary: acc)
  case Nil
  show ?case by (simp add: keeps_returnE)
next
  case (Cons tc tcs)
  show ?case
    unfolding executeTools.simps
    by (intro keeps_bindE keeps_liftE executeToolCall_keeps_tools keeps_readWorld Cons.IH)
       simp_all
qed

lemma callLLM_keeps_tools: "tools (snd (callLLM env messages options s)) = tools s"
  by (simp add: callLLM_def callOpenAI_def bindE_def modify_def gets_def tryCatch_def
        inWorld_def liftE_def returnE_def
        split: prod.splits sum.splits option.splits if_splits)

lemma resultsSerialise_tools:
  fixes s s' :: "('w, 'z) Agent_scheme"
  shows "tools s' = tools s \<Longrightarrow> resultsSerialise env s' tcs = resultsSerialise env s tcs"
  by (simp add: resultsSerialise_def)

lemma resultsSerialise_Cons:
  "resultsSerialise env s (tc # tcs) \<Longrightarrow> resultsSerialise env s tcs"
  by (simp add: resultsSerialise_def)

lemma parseToolCalls_succeeds:
  "(\<forall>tc \<in> set tcs. \<exists>v. JSON_parse env (fn_arguments tc) = Inr v) \<Longrightarrow>
   \<exists>parsed. parseToolCalls env tcs = Inr parsed"
  by (induction tcs) auto

lemma parseToolCalls_fails:
  "tc \<in> set tcs \<Longrightarrow> JSON_parse env (fn_arguments tc) = Inl err \<Longrightarrow>
   \<exists>e. parseToolCalls env tcs = Inl e"
  by (induction tcs) (auto split: sum.splits)

lemma executeTools_returns:
  fixes s :: "('w, 'z) Agent_scheme"
  assumes "\<forall>tc \<in> set tcs. \<exists>v. JSON_parse env (fn_arguments tc) = Inr v"
      and "resultsSerialise env s tcs"
  shows "\<exists>acc' s'. executeTools env response tcs acc s = (Inr acc', s')"
  using assms
proof (induction tcs arbitrary: acc s)
  case Nil
  show ?case by (intro exI [of _ acc] exI [of _ s]) (simp add: returnE_def)
next
  case (Cons tc tcs)
  from Cons.prems(1) obtain v where v: "JSON_parse env (fn_arguments tc) = Inr v" by auto
  obtain result s1 where run:
    "executeToolCall \<lparr>tc_id = call_id tc, toolName = fn_name tc, tc_arguments = v\<rparr> s
       = (Inr result, s1)"
    using executeToolCall_returns by blast
  from Cons.prems(2) v run obtain content where
    content: "JSON_stringify_result env result = Inr content"
    unfolding resultsSerialise_def by (metis list.set_intros(1))
  obtain mid w2 where uuid: "uuidv4 env (world s1) = (mid, w2)"
    by (cases "uuidv4 env (world s1)")
  obtain ts w3 where date: "Date_now env w2 = (ts, w3)"
    by (cases "Date_now env w2")
  have tools1: "tools s1 = tools s"
    by (rule keepsD [OF executeToolCall_keeps_tools run])
  from Cons.prems(1) have rest: "\<forall>tc \<in> set tcs. \<exists>v. JSON_parse env (fn_arguments tc) = Inr v"
    by simp
  have ser: "resultsSerialise env (s1\<lparr>world := w3\<rparr>) tcs"
    using resultsSerialise_Cons [OF Cons.prems(2)] tools1
    by (simp add: resultsSerialise_tools [of "s1\<lparr>world := w3\<rparr>" s])
  show ?case
    using Cons.IH [OF rest ser] v run content uuid date
    by (simp add: bindE_def liftE_def readWorld_def)
qed

text \<open>One turn of the loop, given what the model call and the two reads return.\<close>

lemma agentLoop_exhausted:
  "\<not> int iterations < maxIterations \<Longrightarrow>
   agentLoop env maxIterations iterations messages allMessages s =
     (Inr (allMessages, ''Maximum iterations reached''), s\<lparr>status := Idle\<rparr>)"
  by (subst agentLoop.simps) (simp add: bindE_def modify_def returnE_def)


lemma agentLoop_turn:
  assumes "int iterations < maxIterations"
      and "callLLM env messages None (s\<lparr>status := Thinking\<rparr>) = (Inr response, s1)"
      and "uuidv4 env (world s1) = (mid, w2)"
      and "Date_now env w2 = (ts, w3)"
  shows "agentLoop env maxIterations iterations messages allMessages s =
     (case (case resp_toolCalls response of
              None \<Rightarrow> Inr None
            | Some tcs \<Rightarrow> (case parseToolCalls env tcs of Inl e \<Rightarrow> Inl e | Inr p \<Rightarrow> Inr (Some p))) of
        Inl e \<Rightarrow> (Inl e, s1\<lparr>world := w3\<rparr>)
      | Inr parsed \<Rightarrow>
          (let assistantMessage =
                 \<lparr>msg_id = mid, msg_role = Assistant, msg_content = resp_content response,
                  msg_timestamp = ts, msg_toolCalls = parsed, msg_toolResult = None\<rparr>
           in if finishReason response = Stop \<or> noToolCalls response then
                (Inr (allMessages @ [assistantMessage], resp_content response),
                 s1\<lparr>world := w3, status := Idle\<rparr>)
              else
                bindE (executeTools env response (requestedCalls response)
                         (allMessages @ [assistantMessage], [], messages))
                  (\<lambda>acc. agentLoop env maxIterations (Suc iterations)
                           (snd (snd acc) @ fst (snd acc)) (fst acc))
                  (s1\<lparr>world := w3, status := Executing\<rparr>)))"
  using assms
  by (subst agentLoop.simps)
     (simp add: bindE_def modify_def readWorld_def liftE_def returnE_def Let_def
        split: option.splits sum.splits)

section \<open>Tool calls whose arguments do not parse\<close>

text \<open>The model call when the default backend is in use and the client answers \<open>zr\<close>.\<close>

lemma callLLM_default_answers:
  assumes "providerType s = Openai"
      and "ZAI_create env = returnE ()"
      and "zai_completions_create env = (\<lambda>request. returnE zr)"
      and "fromZai zr = Inr r"
  shows "callLLM env messages options s = (Inr r, s\<lparr>llmCalls := Suc (llmCalls s), zai := True\<rparr>)"
  using assms
  by (cases "zai s")
     (simp_all add: callLLM_def callOpenAI_def bindE_def modify_def gets_def inWorld_def
        liftE_def returnE_def)



lemma agentLoop_parse_failure:
  assumes "int iterations < maxIterations"
      and "callLLM env messages None (s\<lparr>status := Thinking\<rparr>) = (Inr response, s1)"
      and "resp_toolCalls response = Some tcs"
      and "tc \<in> set tcs"
      and "JSON_parse env (fn_arguments tc) = Inl err"
  shows "\<exists>e. parseToolCalls env tcs = Inl e \<and>
             agentLoop env maxIterations iterations messages allMessages s =
               (Inl e, s1\<lparr>world := snd (Date_now env (snd (uuidv4 env (world s1))))\<rparr>)"
proof -
  obtain mid w2 where uuid: "uuidv4 env (world s1) = (mid, w2)"
    by (cases "uuidv4 env (world s1)")
  obtain ts w3 where date: "Date_now env w2 = (ts, w3)"
    by (cases "Date_now env w2")
  obtain e where e: "parseToolCalls env tcs = Inl e"
    using parseToolCalls_fails [OF assms(4,5)] by blast
  have "agentLoop env maxIterations iterations messages allMessages s = (Inl e, s1\<lparr>world := w3\<rparr>)"
    by (subst agentLoop_turn [OF assms(1,2) uuid date]) (simp add: assms(3) e)
  with e uuid date show ?thesis by simp
qed

lemma demo_agent_fields:
  "providerType demo_agent = Openai" "llmCalls demo_agent = 0" "world demo_agent = 0"
  "tools demo_agent = [(''boom'', boom_tool)]" "zai demo_agent = False"
  by (simp_all add: demo_agent_def registerTool_def boom_tool_def)

lemma garbled_answer:
  "providerType s = Openai \<Longrightarrow>
   callLLM garbled_env messages None s =
     (Inr \<lparr>resp_content = ''calling a tool'',
           resp_toolCalls = Some [garbled_call],
           finishReason = Tool_calls, resp_usage = None\<rparr>,
      s\<lparr>llmCalls := Suc (llmCalls s), zai := True\<rparr>)"
  by (rule callLLM_default_answers [where zr = garbled_response])
     (simp_all add: garbled_env_def demo_env_def fromZai_def garbled_response_def)

lemma calling_answer:
  "providerType s = Openai \<Longrightarrow>
   callLLM calling_env messages None s =
     (Inr \<lparr>resp_content = ''calling a tool'', resp_toolCalls = Some [boom_call],
           finishReason = Tool_calls, resp_usage = None\<rparr>,
      s\<lparr>llmCalls := Suc (llmCalls s), zai := True\<rparr>)"
  by (rule callLLM_default_answers [where zr = calling_response])
     (simp_all add: calling_env_def demo_env_def fromZai_def calling_response_def)

lemma garbled_parse: "JSON_parse garbled_env ''{broken'' = Inl (JsError ''Unexpected token'')"
  by (simp add: garbled_env_def demo_env_def)

lemma garbled_loop:
  assumes "providerType s = Openai" and "0 < maxIterations"
  shows "fst (runAgentLoop garbled_env messages maxIterations s) =
           Inl (JsError ''Unexpected token'')"
proof -
  have call: "callLLM garbled_env messages None (s\<lparr>status := Thinking\<rparr>) =
     (Inr \<lparr>resp_content = ''calling a tool'',
           resp_toolCalls = Some [garbled_call],
           finishReason = Tool_calls, resp_usage = None\<rparr>,
      s\<lparr>status := Thinking, llmCalls := Suc (llmCalls s), zai := True\<rparr>)"
    using garbled_answer [of "s\<lparr>status := Thinking\<rparr>" messages] assms(1) by simp
  have pos: "int 0 < maxIterations" using assms(2) by simp
  from agentLoop_parse_failure [OF pos call, of "[garbled_call]"
         "garbled_call" "JsError ''Unexpected token''" "[]"]
  show ?thesis
    by (auto simp: runAgentLoop_def garbled_parse garbled_call_def)
qed

text \<open>
  C3 says that an argument string that is not valid JSON becomes a failed tool result and
  the loop goes on. Here the model asks for a tool with the argument string \<open>{broken\<close>,
  which the parser rejects, and \<open>runAgentLoop\<close> throws the parser's error.
\<close>

theorem runAgentLoop_parse_failure_counterexample:
  "fst (callLLM garbled_env [userMessage ''hello''] None (demo_agent\<lparr>status := Thinking\<rparr>)) =
     Inr \<lparr>resp_content = ''calling a tool'',
          resp_toolCalls = Some [\<lparr>call_id = ''call-1'', fn_name = ''boom'',
                                  fn_arguments = ''{broken''\<rparr>],
          finishReason = Tool_calls, resp_usage = None\<rparr> \<and>
   JSON_parse garbled_env ''{broken'' = Inl (JsError ''Unexpected token'') \<and>
   fst (runAgentLoop garbled_env [userMessage ''hello''] 10 demo_agent) =
     Inl (JsError ''Unexpected token'')"
  using garbled_answer [of "demo_agent\<lparr>status := Thinking\<rparr>" "[userMessage ''hello'']"]
        garbled_loop [of demo_agent 10 "[userMessage ''hello'']"]
  by (simp add: demo_agent_fields garbled_parse garbled_call_def)

text \<open>
  C3, as the code has it. When a response of the model carries a tool call whose argument
  string \<open>JSON.parse\<close> rejects, that turn of the loop throws the parser's error: the
  error of the first such call, raised while the assistant message is built, before any
  tool of the turn runs and without another model call. It is left to the caller's
  \<open>execute\<close> to turn it into a failed result.
\<close>

theorem agentLoop_parse_failure_throws:
  assumes "int iterations < maxIterations"
      and "callLLM env messages None (s\<lparr>status := Thinking\<rparr>) = (Inr response, s1)"
      and "resp_toolCalls response = Some tcs"
      and "tc \<in> set tcs"
      and "JSON_parse env (fn_arguments tc) = Inl err"
  shows "\<exists>e. parseToolCalls env tcs = Inl e \<and>
             agentLoop env maxIterations iterations messages allMessages s =
               (Inl e, s1\<lparr>world := snd (Date_now env (snd (uuidv4 env (world s1))))\<rparr>)"
  using assms by (rule agentLoop_parse_failure)

theorem agentLoop_parse_failure_throws_witness:
  "int 0 < 10 \<and>
   callLLM garbled_env [] None (demo_agent\<lparr>status := Thinking\<rparr>) =
     (Inr \<lparr>resp_content = ''calling a tool'',
           resp_toolCalls = Some [garbled_call],
           finishReason = Tool_calls, resp_usage = None\<rparr>,
      demo_agent\<lparr>status := Thinking, llmCalls := 1, zai := True\<rparr>) \<and>
   garbled_call \<in> set [garbled_call] \<and>
   JSON_parse garbled_env (fn_arguments garbled_call) =
     Inl (JsError ''Unexpected token'') \<and>
   runAgentLoop garbled_env [] 10 demo_agent =
     (Inl (JsError ''Unexpected token''),
      demo_agent\<lparr>status := Thinking, llmCalls := 1, zai := True, world := 2\<rparr>)"
proof -
  have pos: "int 0 < 10" by simp
  have call: "callLLM garbled_env [] None (demo_agent\<lparr>status := Thinking\<rparr>) =
     (Inr \<lparr>resp_content = ''calling a tool'',
           resp_toolCalls = Some [garbled_call],
           finishReason = Tool_calls, resp_usage = None\<rparr>,
      demo_agent\<lparr>status := Thinking, llmCalls := 1, zai := True\<rparr>)"
    using garbled_answer [of "demo_agent\<lparr>status := Thinking\<rparr>" "[]"]
    by (simp add: demo_agent_fields)
  have calls: "resp_toolCalls \<lparr>resp_content = ''calling a tool'',
           resp_toolCalls = Some [garbled_call],
           finishReason = Tool_calls, resp_usage = None\<rparr> =
           Some [garbled_call]"
    by simp
  have mem: "garbled_call \<in> set [garbled_call]"
    by simp
  have bad: "JSON_parse garbled_env (fn_arguments garbled_call) =
     Inl (JsError ''Unexpected token'')"
    by (simp add: garbled_parse garbled_call_def)
  from agentLoop_parse_failure_throws [OF pos call calls mem bad, of "[]"] pos call mem bad
  show ?thesis
    by (auto simp: runAgentLoop_def garbled_parse garbled_call_def garbled_env_def demo_env_def
          demo_agent_fields)
qed

section \<open>A cap of one iteration\<close>

text \<open>
  A first turn that asks for tools, all with arguments that parse and results that
  \<open>JSON.stringify\<close> accepts, when the cap is one iteration: the tools run, and the loop
  ends on the sentinel.
\<close>

lemma agentLoop_single_iteration:
  fixes s :: "('w, 'z) Agent_scheme"
  assumes "callLLM env initialMessages None (s\<lparr>status := Thinking\<rparr>) = (Inr response, s1)"
      and "resp_toolCalls response = Some tcs"
      and "tcs \<noteq> []"
      and "finishReason response \<noteq> Stop"
      and "\<forall>tc \<in> set tcs. \<exists>v. JSON_parse env (fn_arguments tc) = Inr v"
      and "resultsSerialise env s tcs"
  shows "\<exists>transcript s'.
           runAgentLoop env initialMessages 1 s =
             (Inr (transcript, ''Maximum iterations reached''), s') \<and>
           llmCalls s' = Suc (llmCalls s) \<and> status s' = Idle"
proof -
  obtain mid w2 where uuid: "uuidv4 env (world s1) = (mid, w2)"
    by (cases "uuidv4 env (world s1)")
  obtain ts w3 where date: "Date_now env w2 = (ts, w3)"
    by (cases "Date_now env w2")
  obtain parsed where parsed: "parseToolCalls env tcs = Inr parsed"
    using parseToolCalls_succeeds [OF assms(5)] by blast
  let ?m = "\<lparr>msg_id = mid, msg_role = Assistant, msg_content = resp_content response,
             msg_timestamp = ts, msg_toolCalls = Some parsed, msg_toolResult = None\<rparr>"
  let ?s3 = "s1\<lparr>world := w3, status := Executing\<rparr>"
  have "tools s1 = tools (s\<lparr>status := Thinking\<rparr>)"
    using callLLM_keeps_tools [of env initialMessages None "s\<lparr>status := Thinking\<rparr>"] assms(1)
    by simp
  then have "tools ?s3 = tools s" by simp
  then have ser: "resultsSerialise env ?s3 tcs"
    using assms(6) by (simp only: resultsSerialise_tools [of ?s3 s])
  obtain acc s4 where tools_run:
    "executeTools env response tcs ([?m], [], initialMessages) ?s3 = (Inr acc, s4)"
    using executeTools_returns [OF assms(5) ser] by blast
  have calls4: "llmCalls s4 = llmCalls ?s3"
    by (rule keepsD [OF executeTools_keeps_llmCalls tools_run])
  have calls1: "llmCalls s1 = Suc (llmCalls s)"
    using callLLM_counts [of env initialMessages None "s\<lparr>status := Thinking\<rparr>"] assms(1)
    by simp
  have "runAgentLoop env initialMessages 1 s =
          agentLoop env 1 (Suc 0) (snd (snd acc) @ fst (snd acc)) (fst acc) s4"
    unfolding runAgentLoop_def
    by (subst agentLoop_turn [OF _ assms(1) uuid date])
       (simp_all add: assms(2,3,4) parsed noToolCalls_def requestedCalls_def bindE_def tools_run)
  also have "\<dots> = (Inr (fst acc, ''Maximum iterations reached''), s4\<lparr>status := Idle\<rparr>)"
    by (rule agentLoop_exhausted) simp
  finally show ?thesis using calls4 calls1 by simp
qed

text \<open>
  A turn whose tool returns what \<open>JSON.stringify\<close> refuses: the tool runs, and the loop
  throws the \<open>TypeError\<close> of \<open>JSON.stringify\<close> while it builds the tool message.
\<close>

lemma ledger_agent_fields:
  "providerType ledger_agent = Openai" "llmCalls ledger_agent = 0" "world ledger_agent = 0"
  "tools ledger_agent = [(''balance'', balance_tool)]" "zai ledger_agent = False"
  by (simp_all add: ledger_agent_def registerTool_def balance_tool_def)

lemma ledger_answer:
  "providerType s = Openai \<Longrightarrow>
   callLLM ledger_env messages None s =
     (Inr \<lparr>resp_content = ''calling a tool'', resp_toolCalls = Some [balance_call],
           finishReason = Tool_calls, resp_usage = None\<rparr>,
      s\<lparr>llmCalls := Suc (llmCalls s), zai := True\<rparr>)"
  by (rule callLLM_default_answers [where zr = balance_response])
     (simp_all add: ledger_env_def demo_env_def fromZai_def balance_response_def)

lemma runAgentLoop_unserialisable_result:
  "runAgentLoop ledger_env [] 1 ledger_agent =
     (Inl (JsError ''Do not know how to serialize a BigInt''),
      ledger_agent\<lparr>status := Executing, llmCalls := 1, zai := True, world := 3\<rparr>)"
proof -
  have call: "callLLM ledger_env [] None (ledger_agent\<lparr>status := Thinking\<rparr>) =
     (Inr \<lparr>resp_content = ''calling a tool'', resp_toolCalls = Some [balance_call],
           finishReason = Tool_calls, resp_usage = None\<rparr>,
      ledger_agent\<lparr>status := Thinking, llmCalls := 1, zai := True\<rparr>)"
    using ledger_answer [of "ledger_agent\<lparr>status := Thinking\<rparr>" "[]"]
    by (simp add: ledger_agent_fields)
  have uuid: "uuidv4 ledger_env (world (ledger_agent\<lparr>status := Thinking, llmCalls := 1,
                 zai := True\<rparr>)) = (''id-'', 1)"
    by (simp add: ledger_env_def demo_env_def ledger_agent_fields)
  have date: "Date_now ledger_env 1 = (1001, 2)"
    by (simp add: ledger_env_def demo_env_def)
  have pos: "int 0 < 1" by simp
  show ?thesis
    unfolding runAgentLoop_def
    by (subst agentLoop_turn [OF pos call uuid date])
       (simp add: noToolCalls_def requestedCalls_def balance_call_def bindE_def liftE_def
          readWorld_def ledger_env_def demo_env_def executeToolCall_def ledger_agent_fields
          balance_tool_def tryCatch_def inWorld_def returnE_def)
qed

text \<open>
  C7 says that with \<open>maxIterations = 1\<close> every model that asks for a tool on every turn
  makes \<open>runAgentLoop\<close> return the sentinel after one model call. Here the model asks for
  a tool, with finish reason \<open>tool_calls\<close>, and the argument string is not JSON:
  \<open>runAgentLoop\<close> throws instead of returning.
\<close>

theorem runAgentLoop_one_iteration_counterexample:
  "fst (callLLM garbled_env [] None (demo_agent\<lparr>status := Thinking\<rparr>)) =
     Inr \<lparr>resp_content = ''calling a tool'',
          resp_toolCalls = Some [\<lparr>call_id = ''call-1'', fn_name = ''boom'',
                                  fn_arguments = ''{broken''\<rparr>],
          finishReason = Tool_calls, resp_usage = None\<rparr> \<and>
   fst (runAgentLoop garbled_env [] 1 demo_agent) = Inl (JsError ''Unexpected token'')"
  using garbled_answer [of "demo_agent\<lparr>status := Thinking\<rparr>" "[]"]
        garbled_loop [of demo_agent 1 "[]"]
  by (simp add: demo_agent_fields garbled_call_def)

text \<open>
  C7, as the code has it. If the model's answer to the first turn asks for at least one
  tool call, with finish reason \<open>tool_calls\<close>, every argument string of the answer is
  accepted by \<open>JSON.parse\<close>, and \<open>JSON.stringify\<close> accepts whatever the requested calls
  return from the agent's registry, then \<open>runAgentLoop\<close> with \<open>maxIterations = 1\<close> makes
  exactly one model call and returns, its result being the sentinel
  \<open>Maximum iterations reached\<close>. Without either proviso the loop throws: the error of
  \<open>JSON.parse\<close>, or the \<open>TypeError\<close> of \<open>JSON.stringify\<close> on a tool result that holds a
  \<open>BigInt\<close> or contains itself.
\<close>

theorem runAgentLoop_one_iteration:
  fixes s :: "('w, 'z) Agent_scheme"
  assumes "callLLM env initialMessages None (s\<lparr>status := Thinking\<rparr>) = (Inr response, s1)"
      and "resp_toolCalls response = Some tcs"
      and "tcs \<noteq> []"
      and "finishReason response = Tool_calls"
      and "\<forall>tc \<in> set tcs. \<exists>v. JSON_parse env (fn_arguments tc) = Inr v"
      and "\<forall>tc \<in> set tcs. \<forall>v (s0 :: ('w, 'z) Agent_scheme) result s0'.
             JSON_parse env (fn_arguments tc) = Inr v \<longrightarrow>
             tools s0 = tools s \<longrightarrow>
             executeToolCall \<lparr>tc_id = call_id tc, toolName = fn_name tc, tc_arguments = v\<rparr> s0
               = (Inr result, s0') \<longrightarrow>
             (\<exists>content. JSON_stringify_result env result = Inr content)"
  shows "\<exists>transcript s'.
           runAgentLoop env initialMessages 1 s =
             (Inr (transcript, ''Maximum iterations reached''), s') \<and>
           llmCalls s' = Suc (llmCalls s) \<and> status s' = Idle"
proof -
  from assms(4) have running: "finishReason response \<noteq> Stop" by simp
  from assms(6) have "resultsSerialise env s tcs"
    unfolding resultsSerialise_def .
  from agentLoop_single_iteration [OF assms(1,2,3) running assms(5) this] show ?thesis .
qed

theorem runAgentLoop_one_iteration_witness:
  "callLLM calling_env [] None (demo_agent\<lparr>status := Thinking\<rparr>) =
     (Inr \<lparr>resp_content = ''calling a tool'', resp_toolCalls = Some [boom_call],
           finishReason = Tool_calls, resp_usage = None\<rparr>,
      demo_agent\<lparr>status := Thinking, llmCalls := 1, zai := True\<rparr>) \<and>
   [boom_call] \<noteq> [] \<and>
   JSON_parse calling_env (fn_arguments boom_call) = Inr (JObj []) \<and>
   fst (executeToolCall \<lparr>tc_id = call_id boom_call, toolName = fn_name boom_call,
                          tc_arguments = JObj []\<rparr> demo_agent) =
     Inr \<lparr>tool_success = False, tool_data = JUndefined, tool_error = Some ''boom'',
          tool_metadata = None\<rparr> \<and>
   JSON_stringify_result calling_env
     \<lparr>tool_success = False, tool_data = JUndefined, tool_error = Some ''boom'',
      tool_metadata = None\<rparr> = Inr ''[failed]'' \<and>
   (\<exists>transcript s'.
      runAgentLoop calling_env [] 1 demo_agent =
        (Inr (transcript, ''Maximum iterations reached''), s') \<and>
      llmCalls s' = 1 \<and> status s' = Idle)"
proof -
  have call: "callLLM calling_env [] None (demo_agent\<lparr>status := Thinking\<rparr>) =
     (Inr \<lparr>resp_content = ''calling a tool'', resp_toolCalls = Some [boom_call],
           finishReason = Tool_calls, resp_usage = None\<rparr>,
      demo_agent\<lparr>status := Thinking, llmCalls := 1, zai := True\<rparr>)"
    using calling_answer [of "demo_agent\<lparr>status := Thinking\<rparr>" "[]"]
    by (simp add: demo_agent_fields)
  have calls: "resp_toolCalls \<lparr>resp_content = ''calling a tool'',
                 resp_toolCalls = Some [boom_call], finishReason = Tool_calls,
                 resp_usage = None\<rparr> = Some [boom_call]"
    by simp
  have nonempty: "[boom_call] \<noteq> []" by simp
  have reason: "finishReason \<lparr>resp_content = ''calling a tool'',
                  resp_toolCalls = Some [boom_call], finishReason = Tool_calls,
                  resp_usage = None\<rparr> = Tool_calls"
    by simp
  have parses: "\<forall>tc \<in> set [boom_call]. \<exists>v. JSON_parse calling_env (fn_arguments tc) = Inr v"
    by (simp add: calling_env_def demo_env_def boom_call_def)
  have parsed: "JSON_parse calling_env (fn_arguments boom_call) = Inr (JObj [])"
    by (simp add: calling_env_def demo_env_def boom_call_def)
  have boom: "executeToolCall \<lparr>tc_id = call_id boom_call, toolName = fn_name boom_call,
                 tc_arguments = v\<rparr> s0 =
       (Inr \<lparr>tool_success = False, tool_data = JUndefined, tool_error = Some ''boom'',
             tool_metadata = None\<rparr>, s0)"
    if "tools s0 = tools demo_agent" for v and s0 :: "nat Agent"
    using that
    by (simp add: executeToolCall_def demo_agent_fields boom_call_def boom_tool_def
          tryCatch_def inWorld_def throwE_def returnE_def)
  have written: "JSON_stringify_result calling_env
     \<lparr>tool_success = False, tool_data = JUndefined, tool_error = Some ''boom'',
      tool_metadata = None\<rparr> = Inr ''[failed]''"
    by (simp add: calling_env_def demo_env_def)
  have serialise: "\<forall>tc \<in> set [boom_call]. \<forall>v (s0 :: nat Agent) result s0'.
             JSON_parse calling_env (fn_arguments tc) = Inr v \<longrightarrow>
             tools s0 = tools demo_agent \<longrightarrow>
             executeToolCall \<lparr>tc_id = call_id tc, toolName = fn_name tc, tc_arguments = v\<rparr> s0
               = (Inr result, s0') \<longrightarrow>
             (\<exists>content. JSON_stringify_result calling_env result = Inr content)"
    using boom written by auto
  from runAgentLoop_one_iteration [OF call calls nonempty reason parses serialise]
       call nonempty parsed boom [OF refl, of "JObj []"] written
  show ?thesis by (simp add: demo_agent_fields)
qed

section \<open>Agents without tools\<close>

text \<open>
  A model that asks for tools on every turn, with arguments that parse and results that
  \<open>JSON.stringify\<close> accepts, drives the loop to its cap: one model call per remaining
  iteration, whatever tools are registered.
\<close>

lemma agentLoop_runs_to_cap:
  fixes s :: "('w, 'z) Agent_scheme"
  assumes always: "\<And>msgs (s0 :: ('w, 'z) Agent_scheme). tools s0 = registry \<Longrightarrow> \<exists>r s1.
             callLLM env msgs None s0 = (Inr r, s1) \<and> finishReason r \<noteq> Stop \<and>
             \<not> noToolCalls r \<and>
             (\<forall>tc \<in> set (requestedCalls r). \<exists>v. JSON_parse env (fn_arguments tc) = Inr v) \<and>
             resultsSerialise env s0 (requestedCalls r)"
      and registry: "tools s = registry"
  shows "\<exists>transcript s'.
           agentLoop env maxIterations iterations messages allMessages s =
             (Inr (transcript, ''Maximum iterations reached''), s') \<and>
           llmCalls s' = llmCalls s + nat (maxIterations - int iterations)"
  using always registry
proof (induction env maxIterations iterations messages allMessages arbitrary: s
       rule: agentLoop.induct)
  case (1 env maxIterations iterations messages allMessages)
  show ?case
  proof (cases "int iterations < maxIterations")
    case False
    then show ?thesis by (simp add: agentLoop_exhausted)
  next
    case True
    have thinking: "tools (s\<lparr>status := Thinking\<rparr>) = registry"
      using "1.prems"(2) by simp
    obtain r s1 where call: "callLLM env messages None (s\<lparr>status := Thinking\<rparr>) = (Inr r, s1)"
      and nstop: "finishReason r \<noteq> Stop" and some: "\<not> noToolCalls r"
      and parses: "\<forall>tc \<in> set (requestedCalls r). \<exists>v. JSON_parse env (fn_arguments tc) = Inr v"
      and ser0: "resultsSerialise env (s\<lparr>status := Thinking\<rparr>) (requestedCalls r)"
      using "1.prems"(1) [OF thinking, of messages] by blast
    obtain mid w2 where uuid: "uuidv4 env (world s1) = (mid, w2)"
      by (cases "uuidv4 env (world s1)")
    obtain ts w3 where date: "Date_now env w2 = (ts, w3)"
      by (cases "Date_now env w2")
    from some obtain tcs where tcs: "resp_toolCalls r = Some tcs"
      by (auto simp: noToolCalls_def split: option.splits)
    then have req: "requestedCalls r = tcs" by (simp add: requestedCalls_def)
    obtain parsed where parsed: "parseToolCalls env tcs = Inr parsed"
      using parseToolCalls_succeeds [of tcs env] parses req by auto
    let ?m = "\<lparr>msg_id = mid, msg_role = Assistant, msg_content = resp_content r,
               msg_timestamp = ts, msg_toolCalls = Some parsed, msg_toolResult = None\<rparr>"
    let ?s3 = "s1\<lparr>world := w3, status := Executing\<rparr>"
    have tools1: "tools s1 = registry"
      using callLLM_keeps_tools [of env messages None "s\<lparr>status := Thinking\<rparr>"] call thinking
      by simp
    then have "tools ?s3 = tools (s\<lparr>status := Thinking\<rparr>)" using thinking by simp
    then have ser: "resultsSerialise env ?s3 tcs"
      using ser0 req by (simp only: resultsSerialise_tools [of ?s3 "s\<lparr>status := Thinking\<rparr>"])
    from parses req have parses': "\<forall>tc \<in> set tcs. \<exists>v. JSON_parse env (fn_arguments tc) = Inr v"
      by simp
    obtain acc s4 where tools_run:
      "executeTools env r tcs (allMessages @ [?m], [], messages) ?s3 = (Inr acc, s4)"
      using executeTools_returns [OF parses' ser] by blast
    have calls4: "llmCalls s4 = llmCalls ?s3"
      by (rule keepsD [OF executeTools_keeps_llmCalls tools_run])
    have tools4: "tools s4 = registry"
      using keepsD [OF executeTools_keeps_tools tools_run] tools1 by simp
    have calls1: "llmCalls s1 = Suc (llmCalls s)"
      using callLLM_counts [of env messages None "s\<lparr>status := Thinking\<rparr>"] call by simp
    have nstop': "\<not> (finishReason r = Stop \<or> noToolCalls r)" using nstop some by simp
    have step: "agentLoop env maxIterations iterations messages allMessages s =
           agentLoop env maxIterations (Suc iterations) (snd (snd acc) @ fst (snd acc))
             (fst acc) s4"
      by (subst agentLoop_turn [OF True call uuid date])
         (simp add: tcs parsed nstop some req bindE_def tools_run)
    obtain transcript s' where rest:
      "agentLoop env maxIterations (Suc iterations) (snd (snd acc) @ fst (snd acc)) (fst acc) s4
         = (Inr (transcript, ''Maximum iterations reached''), s')"
      "llmCalls s' = llmCalls s4 + nat (maxIterations - int (Suc iterations))"
      using "1.IH" [OF True refl nstop' "1.prems"(1) tools4, of acc] by blast
    from True have "Suc (nat (maxIterations - int (Suc iterations))) =
                    nat (maxIterations - int iterations)"
      by simp
    with step rest calls4 calls1 show ?thesis by simp
  qed
qed

lemma calling_unknown:
  fixes s :: "(nat, 'z) Agent_scheme"
  assumes "tools s = []"
  shows "resultsSerialise calling_env s [boom_call]"
  unfolding resultsSerialise_def
proof (intro ballI allI impI)
  fix tc v result and s0 s1 :: "(nat, 'z) Agent_scheme"
  assume "tools s0 = tools s"
     and run: "executeToolCall \<lparr>tc_id = call_id tc, toolName = fn_name tc, tc_arguments = v\<rparr> s0
                 = (Inr result, s1)"
  with assms have "Map_get (tools s0) (fn_name tc) = None" by simp
  with run have "tool_data result = JUndefined"
    by (auto simp: executeToolCall_unknown)
  then show "\<exists>content. JSON_stringify_result calling_env result = Inr content"
    by (simp add: calling_env_def demo_env_def)
qed

lemma calling_always:
  fixes s :: "(nat, 'z) Agent_scheme"
  assumes "tools s = []"
  shows "\<exists>r s1. callLLM calling_env msgs None s = (Inr r, s1) \<and> finishReason r \<noteq> Stop \<and>
           \<not> noToolCalls r \<and>
           (\<forall>tc \<in> set (requestedCalls r). \<exists>v. JSON_parse calling_env (fn_arguments tc) = Inr v) \<and>
           resultsSerialise calling_env s (requestedCalls r)"
proof -
  have "\<exists>s1. callLLM calling_env msgs None s =
          (Inr \<lparr>resp_content = ''calling a tool'', resp_toolCalls = Some [boom_call],
                finishReason = Tool_calls, resp_usage = None\<rparr>, s1)"
    by (cases "zai s"; cases "providerType s = Openai")
       (simp_all add: callLLM_def callOpenAI_def bindE_def modify_def gets_def inWorld_def
          liftE_def returnE_def throwE_def tryCatch_def calling_env_def demo_env_def
          fromZai_def calling_response_def)
  then show ?thesis
    using calling_unknown [OF assms]
    by (auto simp: noToolCalls_def requestedCalls_def boom_call_def calling_env_def demo_env_def)
qed


text \<open>A first turn that ends the loop: the answer stops, or asks for no tool.\<close>

lemma agentLoop_first_turn_ends:
  fixes s :: "('w, 'z) Agent_scheme"
  assumes "1 \<le> maxIterations"
      and "callLLM env initialMessages None (s\<lparr>status := Thinking\<rparr>) = (Inr response, s1)"
      and "finishReason response = Stop \<or> noToolCalls response"
      and "\<forall>tc \<in> set (requestedCalls response). \<exists>v. JSON_parse env (fn_arguments tc) = Inr v"
  shows "\<exists>transcript s'.
           runAgentLoop env initialMessages maxIterations s =
             (Inr (transcript, resp_content response), s') \<and>
           length transcript = 1 \<and> llmCalls s' = Suc (llmCalls s) \<and> status s' = Idle"
proof -
  obtain mid w2 where uuid: "uuidv4 env (world s1) = (mid, w2)"
    by (cases "uuidv4 env (world s1)")
  obtain ts w3 where date: "Date_now env w2 = (ts, w3)"
    by (cases "Date_now env w2")
  have pos: "int 0 < maxIterations" using assms(1) by simp
  have calls1: "llmCalls s1 = Suc (llmCalls s)"
    using callLLM_counts [of env initialMessages None "s\<lparr>status := Thinking\<rparr>"] assms(2)
    by simp
  show ?thesis
  proof (cases "resp_toolCalls response")
    case None
    then show ?thesis
      unfolding runAgentLoop_def
      by (subst agentLoop_turn [OF pos assms(2) uuid date]) (simp add: assms(3) calls1)
  next
    case (Some tcs)
    then have "requestedCalls response = tcs" by (simp add: requestedCalls_def)
    with assms(4) obtain parsed where "parseToolCalls env tcs = Inr parsed"
      using parseToolCalls_succeeds [of tcs env] by auto
    with Some show ?thesis
      unfolding runAgentLoop_def
      by (subst agentLoop_turn [OF pos assms(2) uuid date]) (simp add: assms(3) calls1)
  qed
qed

lemma chatRequest_without_tools: "tools s = [] \<Longrightarrow> req_tools (chatRequest messages options s) = None"
  by (simp add: chatRequest_def getToolDefinitions_def Let_def)

lemma plain_agent_fields:
  "providerType plain_agent = Openai" "llmCalls plain_agent = 0" "world plain_agent = 0"
  "tools plain_agent = []" "zai plain_agent = False"
  by (simp_all add: plain_agent_def)

lemma stop_answer:
  "providerType s = Openai \<Longrightarrow>
   callLLM demo_env messages None s =
     (Inr \<lparr>resp_content = ''done'', resp_toolCalls = None, finishReason = Stop,
           resp_usage = None\<rparr>,
      s\<lparr>llmCalls := Suc (llmCalls s), zai := True\<rparr>)"
  by (rule callLLM_default_answers [where zr = stop_response])
     (simp_all add: demo_env_def fromZai_def stop_response_def)

text \<open>
  C4 says that an agent without tools ends the loop after one model call whatever the
  model answers. Here an agent without tools runs with \<open>maxIterations = 2\<close> against a model
  that asks for a tool on every turn: the loop makes two model calls.
\<close>

theorem runAgentLoop_no_tools_counterexample:
  "tools plain_agent = [] \<and> llmCalls plain_agent = 0 \<and>
   llmCalls (snd (runAgentLoop calling_env [] 2 plain_agent)) = 2"
  using agentLoop_runs_to_cap [of "[]" calling_env plain_agent 2 0 "[]" "[]", OF calling_always]
  by (auto simp: runAgentLoop_def plain_agent_fields)

text \<open>
  C4, as the code has it. For an agent with no registered tools the request to the model
  carries no tool schemas, and for every \<open>maxIterations\<close> of at least 1 the loop ends
  after exactly one model call, its result being the model's text, provided the model's
  first answer has finish reason \<open>stop\<close> or asks for no tool call (and the argument
  strings it carries, if any, parse). The loop itself does not check that the registry
  is empty.
\<close>

theorem runAgentLoop_no_tools_one_call:
  fixes s :: "('w, 'z) Agent_scheme"
  assumes "tools s = []"
      and "1 \<le> maxIterations"
      and "callLLM env initialMessages None (s\<lparr>status := Thinking\<rparr>) = (Inr response, s1)"
      and "finishReason response = Stop \<or> noToolCalls response"
      and "\<forall>tc \<in> set (requestedCalls response). \<exists>v. JSON_parse env (fn_arguments tc) = Inr v"
  shows "req_tools (chatRequest initialMessages None s) = None \<and>
         (\<exists>transcript s'.
            runAgentLoop env initialMessages maxIterations s =
              (Inr (transcript, resp_content response), s') \<and>
            length transcript = 1 \<and> llmCalls s' = Suc (llmCalls s) \<and> status s' = Idle)"
  using chatRequest_without_tools [OF assms(1)] agentLoop_first_turn_ends [OF assms(2-5)]
  by simp

theorem runAgentLoop_no_tools_one_call_witness:
  "tools plain_agent = [] \<and> (1::int) \<le> 5 \<and>
   callLLM demo_env [userMessage ''hello''] None (plain_agent\<lparr>status := Thinking\<rparr>) =
     (Inr \<lparr>resp_content = ''done'', resp_toolCalls = None, finishReason = Stop,
           resp_usage = None\<rparr>,
      plain_agent\<lparr>status := Thinking, llmCalls := 1, zai := True\<rparr>) \<and>
   req_tools (chatRequest [userMessage ''hello''] None plain_agent) = None \<and>
   (\<exists>transcript s'.
      runAgentLoop demo_env [userMessage ''hello''] 5 plain_agent =
        (Inr (transcript, ''done''), s') \<and>
      length transcript = 1 \<and> llmCalls s' = 1 \<and> status s' = Idle)"
proof -
  have none: "tools plain_agent = []" by (simp add: plain_agent_fields)
  have cap: "(1::int) \<le> 5" by simp
  have call: "callLLM demo_env [userMessage ''hello''] None (plain_agent\<lparr>status := Thinking\<rparr>) =
     (Inr \<lparr>resp_content = ''done'', resp_toolCalls = None, finishReason = Stop,
           resp_usage = None\<rparr>,
      plain_agent\<lparr>status := Thinking, llmCalls := 1, zai := True\<rparr>)"
    using stop_answer [of "plain_agent\<lparr>status := Thinking\<rparr>" "[userMessage ''hello'']"]
    by (simp add: plain_agent_fields)
  have stops: "finishReason \<lparr>resp_content = ''done'', resp_toolCalls = None,
                 finishReason = Stop, resp_usage = None\<rparr> = Stop \<or>
               noToolCalls \<lparr>resp_content = ''done'', resp_toolCalls = None,
                 finishReason = Stop, resp_usage = None\<rparr>"
    by simp
  have parses: "\<forall>tc \<in> set (requestedCalls \<lparr>resp_content = ''done'', resp_toolCalls = None,
                   finishReason = Stop, resp_usage = None\<rparr>).
                  \<exists>v. JSON_parse demo_env (fn_arguments tc) = Inr v"
    by (simp add: requestedCalls_def)
  from runAgentLoop_no_tools_one_call [OF none cap call stops parses] none cap call
  show ?thesis by (simp add: plain_agent_fields)
qed

section \<open>The concrete execute methods never throw\<close>










section \<open>The agent loop does not read the stored messages\<close>

lemma ignores_returnE: "ignores u (returnE x)"
  by (simp add: ignores_def returnE_def)

lemma ignores_liftE: "ignores u (liftE r)"
  by (simp add: ignores_def liftE_def)

lemma ignores_modify: "(\<And>s. f (u s) = u (f s)) \<Longrightarrow> ignores u (modify f)"
  by (simp add: ignores_def modify_def)

lemma ignores_gets: "(\<And>s. f (u s) = f s) \<Longrightarrow> ignores u (gets f)"
  by (simp add: ignores_def gets_def)

lemma ignores_bindE: "ignores u m \<Longrightarrow> (\<And>x. ignores u (f x)) \<Longrightarrow> ignores u (bindE m f)"
  by (auto simp: ignores_def bindE_def split: prod.splits sum.splits)

lemma ignores_tryCatch: "ignores u m \<Longrightarrow> (\<And>e. ignores u (h e)) \<Longrightarrow> ignores u (tryCatch m h)"
  by (auto simp: ignores_def tryCatch_def split: prod.splits sum.splits)

lemma ignores_readWorld: "ignores (withHistory h ms) (readWorld f)"
  by (simp add: ignores_def readWorld_def withHistory_def split: prod.splits)

lemma ignores_inWorld: "ignores (withHistory h ms) (inWorld m)"
  by (simp add: ignores_def inWorld_def withHistory_def split: prod.splits)

lemma callOpenAI_ignores_history: "ignores (withHistory h ms) (callOpenAI env request)"
proof -
  have first: "ignores (withHistory h ms)
     (\<lambda>s :: ('a, 'b) Agent_scheme.
        if \<not> zai s
        then bindE (inWorld (ZAI_create env)) (\<lambda>u. modify (\<lambda>s'. s'\<lparr>zai := True\<rparr>)) s
        else (Inr (), s))"
    by (simp add: ignores_def withHistory_def bindE_def inWorld_def modify_def
          split: prod.splits sum.splits)
  show ?thesis
    unfolding callOpenAI_def
    by (intro ignores_bindE first ignores_inWorld ignores_liftE)
qed

lemma chatRequest_withHistory:
  "chatRequest messages options (withHistory h ms s) = chatRequest messages options s"
  by (simp add: withHistory_def chatRequest_def getToolDefinitions_def Let_def
        cong: option.case_cong)

lemma callLLM_ignores_history: "ignores (withHistory h ms) (callLLM env messages options)"
proof -
  have count: "ignores (withHistory h ms)
                 (modify (\<lambda>s :: ('a, 'b) Agent_scheme. s\<lparr>llmCalls := Suc (llmCalls s)\<rparr>))"
    by (rule ignores_modify) (simp add: withHistory_def)
  have request: "ignores (withHistory h ms)
                   (gets (chatRequest messages options
                            :: ('a, 'b) Agent_scheme \<Rightarrow> ChatCompletionRequest))"
    by (rule ignores_gets) (rule chatRequest_withHistory)
  have ptype: "ignores (withHistory h ms)
                 (gets (providerType :: ('a, 'b) Agent_scheme \<Rightarrow> ProviderType))"
    by (rule ignores_gets) (simp add: withHistory_def)
  have active: "ignores (withHistory h ms)
      ((if p \<noteq> Openai
        then tryCatch
               (bindE (inWorld (createChatCompletion env request)) (\<lambda>response.
                bindE (liftE (fromProvider response)) (\<lambda>r. returnE (Some r))))
               (\<lambda>error. returnE None)
        else returnE None) :: (LLMResponse option, ('a, 'b) Agent_scheme) eff)"
    for p request
    by (auto intro!: ignores_tryCatch ignores_bindE ignores_inWorld ignores_liftE
          ignores_returnE)
  have fallback: "ignores (withHistory h ms)
      ((case r of Some x \<Rightarrow> returnE x | None \<Rightarrow> callOpenAI env request)
         :: (LLMResponse, ('a, 'b) Agent_scheme) eff)"
    for r request
    by (cases r) (auto intro!: ignores_returnE callOpenAI_ignores_history)
  show ?thesis
    unfolding callLLM_def
    by (intro ignores_bindE count request ptype active fallback)
qed

lemma executeToolCall_ignores_history: "ignores (withHistory h ms) (executeToolCall toolCall)"
  by (auto simp: ignores_def executeToolCall_def withHistory_def tryCatch_def inWorld_def
        returnE_def split: option.splits prod.splits sum.splits)

lemma executeTools_ignores_history:
  "ignores (withHistory h ms) (executeTools env response tcs acc)"
proof (induction tcs arbitrary: acc)
  case Nil
  show ?case by (simp add: ignores_returnE)
next
  case (Cons tc tcs)
  show ?case
    unfolding executeTools.simps
    by (intro ignores_bindE ignores_liftE executeToolCall_ignores_history ignores_readWorld
          Cons.IH)
qed

lemma agentLoop_ignores_history:
  "ignores (withHistory h ms)
     (agentLoop env maxIterations iterations messages allMessages
        :: (AgentMessage list \<times> string, ('w, 'z) Agent_scheme) eff)"
proof (induction env maxIterations iterations messages allMessages rule: agentLoop.induct)
  case (1 env maxIterations iterations messages allMessages)
  have status: "ignores (withHistory h ms) (modify (\<lambda>s :: ('w, 'z) Agent_scheme. s\<lparr>status := st\<rparr>))"
    for st
    by (rule ignores_modify) (simp add: withHistory_def)
  show ?case
  proof (cases "int iterations < maxIterations")
    case False
    then show ?thesis
      by (subst agentLoop.simps) (auto intro!: ignores_bindE status ignores_returnE)
  next
    case True
    have parse: "ignores (withHistory h ms)
        ((case resp_toolCalls r of
            None \<Rightarrow> returnE None
          | Some tcs \<Rightarrow> bindE (liftE (parseToolCalls env tcs)) (\<lambda>p. returnE (Some p)))
         :: (ToolCall list option, ('w, 'z) Agent_scheme) eff)"
      for r :: LLMResponse
      by (cases "resp_toolCalls r") (auto intro!: ignores_bindE ignores_liftE ignores_returnE)
    have rest: "ignores (withHistory h ms)
        ((if finishReason r = Stop \<or> noToolCalls r then
            bindE (modify (\<lambda>s. s\<lparr>status := Idle\<rparr>)) (\<lambda>u.
              returnE (allMessages @ [m], resp_content r))
          else
            bindE (modify (\<lambda>s. s\<lparr>status := Executing\<rparr>)) (\<lambda>u.
            bindE (executeTools env r (requestedCalls r) (allMessages @ [m], [], messages))
              (\<lambda>acc. agentLoop env maxIterations (Suc iterations)
                       (snd (snd acc) @ fst (snd acc)) (fst acc))))
         :: (AgentMessage list \<times> string, ('w, 'z) Agent_scheme) eff)"
      for r :: LLMResponse and m :: AgentMessage
    proof (cases "finishReason r = Stop \<or> noToolCalls r")
      case stop: True
      then show ?thesis
        by (auto intro!: ignores_bindE status ignores_returnE)
    next
      case more: False
      from "1.IH" [OF True refl more] more show ?thesis
        by (auto intro!: ignores_bindE status executeTools_ignores_history)
    qed
    show ?thesis
      apply (subst agentLoop.simps)
      apply (simp only: True if_True Let_def)
      apply (intro ignores_bindE status callLLM_ignores_history ignores_readWorld parse rest)
      done
  qed
qed

text \<open>By contrast, \<open>addMessage\<close> appends one message to \<open>messageHistory\<close>.\<close>

lemma addMessage_appends:
  "\<exists>m. messageHistory (snd (addMessage env role content toolCalls toolResult s)) =
         messageHistory s @ [m]"
  by (simp add: addMessage_def bindE_def readWorld_def split: prod.splits)

text \<open>
  C10. \<open>runAgentLoop\<close> leaves \<open>messageHistory\<close> and \<open>state.messages\<close> as they were,
  whether it returns or throws: nothing in the loop calls \<open>addMessage\<close>. The transcript
  it returns is accumulated in a list of its own: what the call returns is the same
  whatever the two stored lists hold.
\<close>

theorem runAgentLoop_keeps_history:
  fixes s :: "('w, 'z) Agent_scheme"
  shows "messageHistory (snd (runAgentLoop env initialMessages maxIterations s)) =
           messageHistory s \<and>
         state_messages (snd (runAgentLoop env initialMessages maxIterations s)) =
           state_messages s \<and>
         fst (runAgentLoop env initialMessages maxIterations
                (s\<lparr>messageHistory := h, state_messages := ms\<rparr>)) =
           fst (runAgentLoop env initialMessages maxIterations s)"
proof -
  have "keeps history (agentLoop env maxIterations 0 initialMessages []
                         :: (AgentMessage list \<times> string, ('w, 'z) Agent_scheme) eff)"
    by (rule agentLoop_keeps_history)
  then have "history (snd (runAgentLoop env initialMessages maxIterations s)) = history s"
    by (simp add: keeps_def runAgentLoop_def)
  moreover
  have "ignores (withHistory h ms)
          (agentLoop env maxIterations 0 initialMessages []
             :: (AgentMessage list \<times> string, ('w, 'z) Agent_scheme) eff)"
    by (rule agentLoop_ignores_history)
  then have "fst (runAgentLoop env initialMessages maxIterations (withHistory h ms s)) =
             fst (runAgentLoop env initialMessages maxIterations s)"
    by (simp add: ignores_def runAgentLoop_def split: prod.splits)
  ultimately show ?thesis by (simp add: history_def withHistory_def)
qed

end
